theory Spec2Isabelle
  imports Complex_Main
begin

section \<open>Python values used by the bot\<close>

subsection \<open>Text\<close>

text \<open>
  A Python \<^verbatim>\<open>str\<close> is a sequence of Unicode code points.  Literals of the source that are
  plain ASCII are written with \<open>ascii\<close>.
\<close>

type_synonym str = "nat list"

definition ascii :: "string \<Rightarrow> str" where
  "ascii s = map of_char s"

text \<open>\<^verbatim>\<open>str.isspace\<close> for one code point, the characters \<^verbatim>\<open>str.strip()\<close> removes.\<close>

definition isspace :: "nat \<Rightarrow> bool" where
  "isspace c \<longleftrightarrow>
     (9 \<le> c \<and> c \<le> 13) \<or> (28 \<le> c \<and> c \<le> 32) \<or> c = 133 \<or> c = 160 \<or> c = 5760 \<or>
     (8192 \<le> c \<and> c \<le> 8202) \<or> c = 8232 \<or> c = 8233 \<or> c = 8239 \<or> c = 8287 \<or> c = 12288"

definition strip :: "str \<Rightarrow> str" where
  "strip s = rev (dropWhile isspace (rev (dropWhile isspace s)))"

text \<open>\<^verbatim>\<open>s.replace(old, new)\<close> for one-character \<^verbatim>\<open>old\<close> and \<^verbatim>\<open>new\<close>.\<close>

definition replace :: "nat \<Rightarrow> nat \<Rightarrow> str \<Rightarrow> str" where
  "replace old new s = map (\<lambda>c. if c = old then new else c) s"

subsection \<open>Exceptions\<close>

datatype exn = ValueError | InvalidOperation | DivisionByZero | Overflow | KeyError

definition bnd :: "exn + 'a \<Rightarrow> ('a \<Rightarrow> exn + 'b) \<Rightarrow> exn + 'b" where
  "bnd m f = (case m of Inl e \<Rightarrow> Inl e | Inr x \<Rightarrow> f x)"

subsection \<open>\<^verbatim>\<open>decimal.Decimal\<close>\<close>

text \<open>
  A \<^verbatim>\<open>Decimal\<close> is a sign, a coefficient and an exponent (\<open>Dec s c e\<close> is
  \<open>(-1)\<^sup>s \<sqdot> c \<sqdot> 10\<^sup>e\<close>), an infinity, or a quiet or signalling NaN with its payload.
  The sign is \<open>True\<close> for negative.
\<close>

datatype decimal = Dec bool nat int | Infinity bool | NaN bool nat | SNaN bool nat


definition is_finite :: "decimal \<Rightarrow> bool" where
  "is_finite d = (case d of Dec s c e \<Rightarrow> True | _ \<Rightarrow> False)"

definition is_nan :: "decimal \<Rightarrow> bool" where
  "is_nan d = (case d of NaN s p \<Rightarrow> True | SNaN s p \<Rightarrow> True | _ \<Rightarrow> False)"

text \<open>\<^verbatim>\<open>Decimal(i)\<close> for a Python int.\<close>

definition Decimal_int :: "int \<Rightarrow> decimal" where
  "Decimal_int i = Dec (i < 0) (nat \<bar>i\<bar>) 0"

subsubsection \<open>The constructor \<^verbatim>\<open>Decimal(value)\<close> for a string\<close>

text \<open>
  The zeros of the Unicode decimal digits (general category Nd, Unicode 14): each is followed
  by its digits 1 to 9.
\<close>

definition decimal_zeros :: "nat list" where
  "decimal_zeros =
    [48, 1632, 1776, 1984, 2406, 2534, 2662, 2790, 2918, 3046, 3174, 3302, 3430, 3558, 3664,
     3792, 3872, 4160, 4240, 6112, 6160, 6470, 6608, 6784, 6800, 6992, 7088, 7232, 7248, 42528,
     43216, 43264, 43472, 43504, 43600, 44016, 65296, 66720, 68912, 69734, 69872, 69942, 70096,
     70384, 70736, 70864, 71248, 71360, 71472, 71904, 72016, 72784, 73040, 73120, 92768, 92864,
     93008, 120782, 120792, 120802, 120812, 120822, 123200, 123632, 125264, 130032]"

definition to_decimal :: "nat \<Rightarrow> nat option" where
  "to_decimal c = (case filter (\<lambda>z. z \<le> c \<and> c < z + 10) decimal_zeros of
     [] \<Rightarrow> None | z # zs \<Rightarrow> Some (c - z))"

text \<open>
  The constructor first strips white space, drops underscores and turns every decimal digit
  into its ASCII digit; any other character beyond ASCII makes the string invalid (here it
  becomes the code point 0, which no numeric string contains).
\<close>

definition numeric_as_ascii :: "str \<Rightarrow> str" where
  "numeric_as_ascii s =
     map (\<lambda>c. if c < 128 then c else (case to_decimal c of Some d \<Rightarrow> 48 + d | None \<Rightarrow> 0))
       (filter (\<lambda>c. c \<noteq> of_char CHR ''_'') (strip s))"

definition is_digit :: "nat \<Rightarrow> bool" where
  "is_digit c \<longleftrightarrow> 48 \<le> c \<and> c \<le> 57"

definition int_of_digits :: "str \<Rightarrow> nat" where
  "int_of_digits ds = foldl (\<lambda>n c. 10 * n + (c - 48)) 0 ds"

definition lower :: "nat \<Rightarrow> nat" where
  "lower c = (if 65 \<le> c \<and> c \<le> 90 then c + 32 else c)"

text \<open>An optional sign in front of the rest of the string.\<close>

definition split_sign :: "str \<Rightarrow> bool \<times> str" where
  "split_sign s = (case s of
     [] \<Rightarrow> (False, [])
   | c # r \<Rightarrow> if c = of_char CHR ''-'' then (True, r)
              else if c = of_char CHR ''+'' then (False, r)
              else (False, s))"

text \<open>
  A number: digits with an optional fractional part, at least one digit in all, and an
  optional exponent \<^verbatim>\<open>E[+-]digits\<close>.
\<close>

definition number_of_ascii :: "bool \<Rightarrow> str \<Rightarrow> exn + decimal" where
  "number_of_ascii sign body =
    (let intpart = takeWhile is_digit body;
         r1 = dropWhile is_digit body;
         (frac, r2) = (case r1 of
            [] \<Rightarrow> ([], [])
          | c # r \<Rightarrow> if c = of_char CHR ''.'' then (takeWhile is_digit r, dropWhile is_digit r)
                     else ([], r1))
     in if intpart = [] \<and> frac = [] then Inl InvalidOperation
        else (case r2 of
           [] \<Rightarrow> Inr (Dec sign (int_of_digits (intpart @ frac)) (- int (length frac)))
         | c # r \<Rightarrow>
            if lower c = of_char CHR ''e'' then
              (case split_sign r of (neg, ds) \<Rightarrow>
                 if ds \<noteq> [] \<and> list_all is_digit ds then
                   Inr (Dec sign (int_of_digits (intpart @ frac))
                          ((if neg then - int (int_of_digits ds) else int (int_of_digits ds))
                            - int (length frac)))
                 else Inl InvalidOperation)
            else Inl InvalidOperation))"

definition Decimal :: "str \<Rightarrow> exn + decimal" where
  "Decimal v =
    (case split_sign (numeric_as_ascii v) of (sign, body) \<Rightarrow>
       let low = map lower body in
       if low = ascii ''inf'' \<or> low = ascii ''infinity'' then Inr (Infinity sign)
       else if take 3 low = ascii ''nan'' then
         (if list_all is_digit (drop 3 body) then Inr (NaN sign (int_of_digits (drop 3 body)))
          else Inl InvalidOperation)
       else if take 4 low = ascii ''snan'' then
         (if list_all is_digit (drop 4 body) then Inr (SNaN sign (int_of_digits (drop 4 body)))
          else Inl InvalidOperation)
       else number_of_ascii sign body)"

subsubsection \<open>Comparison and truth value\<close>

text \<open>
  \<^verbatim>\<open>_cmp\<close>: the numerical comparison of two decimals that are not NaN, as -1, 0 or 1.
\<close>

definition isinfinity :: "decimal \<Rightarrow> int" where
  "isinfinity d = (case d of Infinity s \<Rightarrow> (if s then - 1 else 1) | _ \<Rightarrow> 0)"

definition signed :: "bool \<Rightarrow> nat \<Rightarrow> int" where
  "signed s c = (if s then - int c else int c)"

definition cmp :: "decimal \<Rightarrow> decimal \<Rightarrow> int" where
  "cmp a b = (case (a, b) of
     (Dec s1 c1 e1, Dec s2 c2 e2) \<Rightarrow>
        (let m = min e1 e2;
             x = signed s1 c1 * 10 ^ nat (e1 - m);
             y = signed s2 c2 * 10 ^ nat (e2 - m)
         in if x < y then - 1 else if x = y then 0 else 1)
   | _ \<Rightarrow>
        (let u = isinfinity a; v = isinfinity b
         in if u = v then 0 else if u < v then - 1 else 1))"

text \<open>
  The operators \<^verbatim>\<open><\<close>, \<^verbatim>\<open><=\<close> and \<^verbatim>\<open>>\<close> signal \<^verbatim>\<open>InvalidOperation\<close> when an operand is a NaN;
  the default context traps the signal, so the comparison raises.
\<close>

definition dlt :: "decimal \<Rightarrow> decimal \<Rightarrow> exn + bool" where
  "dlt a b = (if is_nan a \<or> is_nan b then Inl InvalidOperation else Inr (cmp a b < 0))"

definition dle :: "decimal \<Rightarrow> decimal \<Rightarrow> exn + bool" where
  "dle a b = (if is_nan a \<or> is_nan b then Inl InvalidOperation else Inr (cmp a b \<le> 0))"

definition dgt :: "decimal \<Rightarrow> decimal \<Rightarrow> exn + bool" where
  "dgt a b = (if is_nan a \<or> is_nan b then Inl InvalidOperation else Inr (cmp a b > 0))"

text \<open>\<^verbatim>\<open>__bool__\<close>: only a zero is false; NaNs and infinities are true.\<close>

definition truthy :: "decimal \<Rightarrow> bool" where
  "truthy d = (case d of Dec s c e \<Rightarrow> c \<noteq> 0 | _ \<Rightarrow> True)"

subsubsection \<open>Arithmetic in the default context\<close>

text \<open>
  The bot never changes the context: precision 28, rounding half-even, exponents between
  -999999 and 999999, and the signals \<^verbatim>\<open>InvalidOperation\<close>, \<^verbatim>\<open>DivisionByZero\<close> and \<^verbatim>\<open>Overflow\<close>
  trapped (they raise).  An operation returns its result together with the \<^verbatim>\<open>Inexact\<close> signal,
  which is not trapped and only sets a flag of the context.
\<close>

definition prec :: int where "prec = 28"
definition Emax :: int where "Emax = 999999"
definition Emin :: int where "Emin = - 999999"
definition Etiny :: int where "Etiny = Emin - prec + 1"
definition Etop :: int where "Etop = Emax - prec + 1"

type_synonym 'a ctx = "exn + 'a \<times> bool"

definition cbnd :: "'a ctx \<Rightarrow> ('a \<Rightarrow> 'b ctx) \<Rightarrow> 'b ctx" where
  "cbnd m f = (case m of
     Inl e \<Rightarrow> Inl e
   | Inr (x, i) \<Rightarrow> (case f x of Inl e \<Rightarrow> Inl e | Inr (y, j) \<Rightarrow> Inr (y, i \<or> j)))"

definition quiet :: "exn + 'a \<Rightarrow> 'a ctx" where
  "quiet m = (case m of Inl e \<Rightarrow> Inl e | Inr x \<Rightarrow> Inr (x, False))"

text \<open>\<^verbatim>\<open>len(str(n))\<close>, the number of digits of a coefficient.\<close>

fun ndigits :: "nat \<Rightarrow> nat" where
  "ndigits n = (if n < 10 then 1 else Suc (ndigits (n div 10)))"

declare ndigits.simps [simp del]

text \<open>
  \<^verbatim>\<open>_round_half_even\<close>: the coefficient \<open>c\<close> without its last \<open>k\<close> digits, rounded.  With \<open>q\<close> the
  part kept and \<open>r\<close> the part dropped, it rounds up when \<open>r\<close> is more than half a unit of \<open>q\<close>,
  or exactly half with \<open>q\<close> odd.
\<close>

definition round_half_even :: "nat \<Rightarrow> nat \<Rightarrow> nat" where
  "round_half_even c k =
     (let q = c div 10 ^ k; r = c mod 10 ^ k
      in if 2 * r > 10 ^ k \<or> (2 * r = 10 ^ k \<and> odd q) then q + 1 else q)"

text \<open>
  \<^verbatim>\<open>_fix\<close>: round a finite result to the precision and check its exponent.  A zero only has
  its exponent clamped.  A coefficient with too many digits for the smallest exponent allowed,
  \<open>exp_min\<close>, is rounded to that exponent, which signals \<^verbatim>\<open>Inexact\<close> when the digits dropped are
  not all zero; a carry into a further digit moves the exponent up by one.
\<close>

definition round_to :: "bool \<Rightarrow> nat \<Rightarrow> int \<Rightarrow> int \<Rightarrow> decimal ctx" where
  "round_to s c e exp_min =
     (let k = nat (exp_min - e);
          coeff = round_half_even c k;
          inexact = (c mod 10 ^ k \<noteq> 0)
      in if int (ndigits coeff) > prec then
           (if exp_min + 1 > Etop then Inl Overflow
            else Inr (Dec s (coeff div 10) (exp_min + 1), inexact))
         else Inr (Dec s coeff exp_min, inexact))"

definition dfix :: "bool \<Rightarrow> nat \<Rightarrow> int \<Rightarrow> decimal ctx" where
  "dfix s c e =
    (if c = 0 then Inr (Dec s 0 (min (max e Etiny) Emax), False)
     else if int (ndigits c) + e - prec > Etop then Inl Overflow
     else if e < max (int (ndigits c) + e - prec) Etiny then
       round_to s c e (max (int (ndigits c) + e - prec) Etiny)
     else Inr (Dec s c e, False))"

text \<open>
  \<^verbatim>\<open>_check_nans\<close>: a signalling NaN operand raises; otherwise a quiet NaN operand is the
  result, its payload cut to the precision.
\<close>

definition is_snan :: "decimal \<Rightarrow> bool" where
  "is_snan d = (case d of SNaN s p \<Rightarrow> True | _ \<Rightarrow> False)"

definition fix_nan :: "decimal \<Rightarrow> decimal" where
  "fix_nan d = (case d of NaN s p \<Rightarrow> NaN s (p mod 10 ^ nat prec) | _ \<Rightarrow> d)"

definition check_nans :: "decimal \<Rightarrow> decimal \<Rightarrow> decimal ctx option" where
  "check_nans a b =
    (if is_snan a \<or> is_snan b then Some (Inl InvalidOperation)
     else if is_nan a then Some (Inr (fix_nan a, False))
     else if is_nan b then Some (Inr (fix_nan b, False))
     else None)"

definition dmul :: "decimal \<Rightarrow> decimal \<Rightarrow> decimal ctx" where
  "dmul a b = (case check_nans a b of
     Some r \<Rightarrow> r
   | None \<Rightarrow> (case (a, b) of
        (Dec s1 c1 e1, Dec s2 c2 e2) \<Rightarrow> dfix (s1 \<noteq> s2) (c1 * c2) (e1 + e2)
      | (Dec s1 c1 e1, Infinity s2) \<Rightarrow>
          if c1 = 0 then Inl InvalidOperation else Inr (Infinity (s1 \<noteq> s2), False)
      | (Infinity s1, Dec s2 c2 e2) \<Rightarrow>
          if c2 = 0 then Inl InvalidOperation else Inr (Infinity (s1 \<noteq> s2), False)
      | (Infinity s1, Infinity s2) \<Rightarrow> Inr (Infinity (s1 \<noteq> s2), False)
      | _ \<Rightarrow> Inl InvalidOperation))"

text \<open>
  Addition: the exact sum of the operands aligned at the smaller exponent, then rounded.  A
  zero sum of two nonzero operands is positive; a sum of two zeros is negative only when both
  are.
\<close>

definition dadd :: "decimal \<Rightarrow> decimal \<Rightarrow> decimal ctx" where
  "dadd a b = (case check_nans a b of
     Some r \<Rightarrow> r
   | None \<Rightarrow> (case (a, b) of
        (Dec s1 c1 e1, Dec s2 c2 e2) \<Rightarrow>
          (let m = min e1 e2;
               x = signed s1 c1 * 10 ^ nat (e1 - m) + signed s2 c2 * 10 ^ nat (e2 - m)
           in if x = 0 then dfix (c1 = 0 \<and> c2 = 0 \<and> s1 \<and> s2) 0 m
              else dfix (x < 0) (nat \<bar>x\<bar>) m)
      | (Dec s1 c1 e1, Infinity s2) \<Rightarrow> Inr (Infinity s2, False)
      | (Infinity s1, Dec s2 c2 e2) \<Rightarrow> Inr (Infinity s1, False)
      | (Infinity s1, Infinity s2) \<Rightarrow>
          if s1 \<noteq> s2 then Inl InvalidOperation else Inr (Infinity s1, False)
      | _ \<Rightarrow> Inl InvalidOperation))"

definition copy_negate :: "decimal \<Rightarrow> decimal" where
  "copy_negate d = (case d of
     Dec s c e \<Rightarrow> Dec (\<not> s) c e
   | Infinity s \<Rightarrow> Infinity (\<not> s)
   | NaN s p \<Rightarrow> NaN (\<not> s) p
   | SNaN s p \<Rightarrow> SNaN (\<not> s) p)"

definition dsub :: "decimal \<Rightarrow> decimal \<Rightarrow> decimal ctx" where
  "dsub a b = (case check_nans a b of
     Some r \<Rightarrow> r
   | None \<Rightarrow> dadd a (copy_negate b))"

text \<open>
  Division computes \<open>prec + 1\<close> digits of the quotient and more, marks an inexact quotient
  by a last digit that is neither 0 nor 5, and strips the zeros of an exact quotient down to
  the ideal exponent before rounding.
\<close>

function strip_zeros :: "nat \<Rightarrow> int \<Rightarrow> int \<Rightarrow> nat \<times> int" where
  "strip_zeros coeff e ideal =
     (if e < ideal \<and> coeff mod 10 = 0 then strip_zeros (coeff div 10) (e + 1) ideal
      else (coeff, e))"
  by pat_completeness auto
termination
  by (relation "measure (\<lambda>(coeff, e, ideal). nat (ideal - e))") auto

declare strip_zeros.simps [simp del]

definition ddiv :: "decimal \<Rightarrow> decimal \<Rightarrow> decimal ctx" where
  "ddiv a b = (case check_nans a b of
     Some r \<Rightarrow> r
   | None \<Rightarrow> (case (a, b) of
        (Dec s1 c1 e1, Dec s2 c2 e2) \<Rightarrow>
          if c2 = 0 then (if c1 = 0 then Inl InvalidOperation else Inl DivisionByZero)
          else if c1 = 0 then dfix (s1 \<noteq> s2) 0 (e1 - e2)
          else
            (let shift = int (ndigits c2) - int (ndigits c1) + prec + 1;
                 e = e1 - e2 - shift;
                 n = (if shift \<ge> 0 then c1 * 10 ^ nat shift else c1);
                 d = (if shift \<ge> 0 then c2 else c2 * 10 ^ nat (- shift));
                 coeff = n div d;
                 remainder = n mod d
             in if remainder \<noteq> 0 then
                  dfix (s1 \<noteq> s2) (if coeff mod 5 = 0 then coeff + 1 else coeff) e
                else (case strip_zeros coeff e (e1 - e2) of (coeff', e') \<Rightarrow>
                  dfix (s1 \<noteq> s2) coeff' e'))
      | (Dec s1 c1 e1, Infinity s2) \<Rightarrow> Inr (Dec (s1 \<noteq> s2) 0 Etiny, False)
      | (Infinity s1, Dec s2 c2 e2) \<Rightarrow> Inr (Infinity (s1 \<noteq> s2), False)
      | (Infinity s1, Infinity s2) \<Rightarrow> Inl InvalidOperation
      | _ \<Rightarrow> Inl InvalidOperation))"

subsubsection \<open>\<^verbatim>\<open>str(d)\<close>\<close>

text \<open>\<^verbatim>\<open>str(n)\<close> for a Python int \<open>n \<ge> 0\<close>, and \<^verbatim>\<open>"%+d" % i\<close>.\<close>

fun digits_of :: "nat \<Rightarrow> str" where
  "digits_of n = (if n < 10 then [48 + n] else digits_of (n div 10) @ [48 + n mod 10])"

declare digits_of.simps [simp del]

definition str_exponent :: "int \<Rightarrow> str" where
  "str_exponent i = (if i < 0 then of_char CHR ''-'' else of_char CHR ''+'') # digits_of (nat \<bar>i\<bar>)"

definition str_sign :: "bool \<Rightarrow> str" where
  "str_sign s = (if s then ascii ''-'' else [])"

text \<open>
  \<^verbatim>\<open>__str__\<close>, the scientific string: no exponent when the exponent is at most 0 and more than
  -6 digits stand left of the point, one digit before the point otherwise.  The payload of a
  NaN is printed when it is not zero.
\<close>

definition str_decimal :: "decimal \<Rightarrow> str" where
  "str_decimal d = (case d of
     Infinity s \<Rightarrow> str_sign s @ ascii ''Infinity''
   | NaN s p \<Rightarrow> str_sign s @ ascii ''NaN'' @ (if p = 0 then [] else digits_of p)
   | SNaN s p \<Rightarrow> str_sign s @ ascii ''sNaN'' @ (if p = 0 then [] else digits_of p)
   | Dec s c e \<Rightarrow>
      (let ds = digits_of c;
           n = int (length ds);
           leftdigits = e + n;
           dotplace = (if e \<le> 0 \<and> leftdigits > - 6 then leftdigits else 1);
           intpart = (if dotplace \<le> 0 then ascii ''0''
                      else if dotplace \<ge> n then ds @ replicate (nat (dotplace - n)) 48
                      else take (nat dotplace) ds);
           fracpart = (if dotplace \<le> 0 then ascii ''.'' @ replicate (nat (- dotplace)) 48 @ ds
                       else if dotplace \<ge> n then []
                       else ascii ''.'' @ drop (nat dotplace) ds);
           ex = (if leftdigits = dotplace then []
                 else ascii ''E'' @ str_exponent (leftdigits - dotplace))
       in str_sign s @ intpart @ fracpart @ ex))"

section \<open>The bot\<close>

subsection \<open>\<^verbatim>\<open>parse_decimal\<close>\<close>

text \<open>
  The text of a message is absent for a message without text; \<^verbatim>\<open>text.replace\<close> then raises
  inside the \<^verbatim>\<open>try\<close>, whose bare \<^verbatim>\<open>except\<close> turns every exception into \<^verbatim>\<open>ValueError\<close>.
\<close>

definition parse_decimal :: "str option \<Rightarrow> exn + decimal" where
  "parse_decimal text = (case text of
     None \<Rightarrow> Inl ValueError
   | Some t \<Rightarrow>
      (case Decimal (replace (of_char CHR '','') (of_char CHR ''.'') t) of
         Inl e \<Rightarrow> Inl ValueError
       | Inr d \<Rightarrow> Inr d))"

subsection \<open>The state of the process\<close>

text \<open>
  \<^verbatim>\<open>DeliveryStates\<close>; an absent state is \<open>None\<close>.  The working data of a user is the
  dictionary of the FSM context.  A settings file holds a JSON object of strings.  The bot
  object holds \<^verbatim>\<open>last_eur_rate\<close>.  Users are identified by \<^verbatim>\<open>message.from_user.id\<close>; the chat is
  a private one, so the FSM context belongs to the user.
\<close>

datatype State =
    setup_cny_rate | setup_weight_tariff | setup_volume_coefficient | setup_photo_report
  | setup_duty_free_threshold | manual_eur_rate
  | calc_length | calc_width | calc_height | calc_weight | calc_price_cny | calc_delivery_ru

type_synonym settings = "(string \<times> decimal) list"

record bot =
  fsm_state :: "nat \<Rightarrow> State option"
  fsm_data :: "nat \<Rightarrow> (string \<rightharpoonup> decimal)"
  files :: "nat \<rightharpoonup> (string \<times> str) list"
  last_eur_rate :: "decimal option"

definition set_state :: "nat \<Rightarrow> State option \<Rightarrow> bot \<Rightarrow> bot" where
  "set_state uid st b = b\<lparr>fsm_state := (fsm_state b)(uid := st)\<rparr>"

definition update_data :: "nat \<Rightarrow> string \<Rightarrow> decimal \<Rightarrow> bot \<Rightarrow> bot" where
  "update_data uid k v b = b\<lparr>fsm_data := (fsm_data b)(uid := (fsm_data b uid)(k \<mapsto> v))\<rparr>"

text \<open>\<^verbatim>\<open>state.clear()\<close> resets the state and the data.\<close>

definition clear :: "nat \<Rightarrow> bot \<Rightarrow> bot" where
  "clear uid b = b\<lparr>fsm_state := (fsm_state b)(uid := None),
                    fsm_data := (fsm_data b)(uid := Map.empty)\<rparr>"

subsection \<open>What the bot sends and logs\<close>

text \<open>
  The result of the calculation, as the last message shows it (the message formats the
  amounts to two places; the record keeps the values formatted).
\<close>

record result =
  eur_rate :: decimal
  volume_weight :: decimal
  volume_coefficient :: decimal
  delivery_cost :: decimal
  duty :: decimal
  total_cost :: decimal
  cost_20_percent :: decimal
  cost_30_percent :: decimal

text \<open>
  The messages of the source, by what they say: \<open>Ask st\<close> is the prompt for the value that
  state \<open>st\<close> waits for, \<open>Invalid_positive\<close> and \<open>Invalid_nonnegative\<close> are the two fixed
  validation messages.
\<close>

datatype reply =
    Welcome_menu | Welcome_setup | Update_settings | Ask State
  | Invalid_positive | Invalid_nonnegative
  | Settings_info settings | Settings_updated
  | Settings_not_found | Need_manual_rate | Result result | Calculation_failed

datatype source = CBR_XML | CBR_JSON | Google_Finance

datatype log = Got source decimal | Cached decimal | No_rate | Calculation_error exn

text \<open>
  What a handler does besides changing the state: the messages it sends, the requests of
  the rate resolver, the log lines, and an exception that leaves the handler.
\<close>

datatype event = Answer reply | Get source | Log log | Raised exn

subsection \<open>\<^verbatim>\<open>SettingsManager\<close>\<close>

definition save_settings :: "nat \<Rightarrow> settings \<Rightarrow> bot \<Rightarrow> bot" where
  "save_settings uid st b = b\<lparr>files := (files b)(uid \<mapsto> map (\<lambda>(k, v). (k, str_decimal v)) st)\<rparr>"

text \<open>
  An absent file gives \<open>None\<close>; a value that is no decimal raises (the source catches only
  a missing file and malformed JSON).
\<close>

fun load_items :: "(string \<times> str) list \<Rightarrow> exn + settings" where
  "load_items [] = Inr []"
| "load_items ((k, v) # kvs) =
     bnd (Decimal v) (\<lambda>d. bnd (load_items kvs) (\<lambda>r. Inr ((k, d) # r)))"

definition load_settings :: "nat \<Rightarrow> bot \<Rightarrow> exn + settings option" where
  "load_settings uid b = (case files b uid of
     None \<Rightarrow> Inr None
   | Some kvs \<Rightarrow> bnd (load_items kvs) (\<lambda>st. Inr (Some st)))"

text \<open>The truth value of \<^verbatim>\<open>Optional[Dict]\<close>: \<^verbatim>\<open>None\<close> and the empty dictionary are false.\<close>

definition truthy_settings :: "settings option \<Rightarrow> bool" where
  "truthy_settings st = (case st of None \<Rightarrow> False | Some kvs \<Rightarrow> kvs \<noteq> [])"

subsection \<open>\<^verbatim>\<open>DeliveryBot.fetch_eur_rate\<close>\<close>

text \<open>
  The three sources are outside the program.  For one call, \<open>responses\<close> gives for each source
  the text of the rate field it delivers, or \<open>None\<close> when the request or the extraction of the
  field fails (an exception, a status other than 200, no entry for EUR).  A text that is no
  decimal makes \<^verbatim>\<open>Decimal\<close> raise inside the \<^verbatim>\<open>try\<close>, and the source fails as well.
\<close>

record responses =
  cbr_xml :: "str option"
  cbr_json :: "str option"
  google :: "str option"

definition rate_of :: "str option \<Rightarrow> decimal option" where
  "rate_of t = (case t of
     None \<Rightarrow> None
   | Some v \<Rightarrow> (case Decimal v of Inl e \<Rightarrow> None | Inr d \<Rightarrow> Some d))"

definition fetch_eur_rate :: "responses \<Rightarrow> bot \<Rightarrow> decimal option \<times> bot \<times> event list" where
  "fetch_eur_rate rs b =
    (case rate_of (map_option (replace (of_char CHR '','') (of_char CHR ''.'')) (cbr_xml rs)) of
       Some rate \<Rightarrow>
         (Some rate, b\<lparr>last_eur_rate := Some rate\<rparr>, [Get CBR_XML, Log (Got CBR_XML rate)])
     | None \<Rightarrow>
        (case rate_of (cbr_json rs) of
           Some rate \<Rightarrow>
             (Some rate, b\<lparr>last_eur_rate := Some rate\<rparr>,
              [Get CBR_XML, Get CBR_JSON, Log (Got CBR_JSON rate)])
         | None \<Rightarrow>
            (case rate_of (google rs) of
               Some rate \<Rightarrow>
                 (Some rate, b\<lparr>last_eur_rate := Some rate\<rparr>,
                  [Get CBR_XML, Get CBR_JSON, Get Google_Finance, Log (Got Google_Finance rate)])
             | None \<Rightarrow>
                (case last_eur_rate b of
                   Some r \<Rightarrow>
                     if truthy r then
                       (Some r, b, [Get CBR_XML, Get CBR_JSON, Get Google_Finance, Log (Cached r)])
                     else (None, b, [Get CBR_XML, Get CBR_JSON, Get Google_Finance, Log No_rate])
                 | None \<Rightarrow>
                     (None, b, [Get CBR_XML, Get CBR_JSON, Get Google_Finance, Log No_rate])))))"

subsection \<open>The calculation\<close>

definition getitem :: "(string \<rightharpoonup> decimal) \<Rightarrow> string \<Rightarrow> decimal ctx" where
  "getitem m k = (case m k of None \<Rightarrow> Inl KeyError | Some v \<Rightarrow> Inr (v, False))"

text \<open>
  The arithmetic of \<^verbatim>\<open>process_calculation\<close>, from the volume to the two marked-up costs, with
  the operations in the order Python evaluates them.  The last lookup is the one the message
  makes when it shows the settings.
\<close>

definition calculation :: "(string \<rightharpoonup> decimal) \<Rightarrow> (string \<rightharpoonup> decimal) \<Rightarrow> decimal \<Rightarrow> result ctx" where
  "calculation data settings rate =
     cbnd (getitem data ''length'') (\<lambda>length.
     cbnd (ddiv length (Decimal_int 100)) (\<lambda>l.
     cbnd (getitem data ''width'') (\<lambda>width.
     cbnd (ddiv width (Decimal_int 100)) (\<lambda>w.
     cbnd (dmul l w) (\<lambda>lw.
     cbnd (getitem data ''height'') (\<lambda>height.
     cbnd (ddiv height (Decimal_int 100)) (\<lambda>h.
     cbnd (dmul lw h) (\<lambda>volume.
     cbnd (dmul volume (Dec False 167 0)) (\<lambda>vw.
     cbnd (getitem data ''weight'') (\<lambda>weight.
     cbnd (quiet (dgt vw weight)) (\<lambda>heavier.
     cbnd (if heavier then
             cbnd (dsub vw weight) (\<lambda>x.
             cbnd (getitem settings ''volume_coefficient'') (\<lambda>k. dmul x k))
           else Inr (Dec False 0 0, False)) (\<lambda>vc.
     cbnd (getitem settings ''weight_tariff'') (\<lambda>tariff.
     cbnd (dmul weight tariff) (\<lambda>by_weight.
     cbnd (dadd by_weight vc) (\<lambda>dc.
     cbnd (getitem data ''price_cny'') (\<lambda>price_cny.
     cbnd (getitem settings ''cny_rate'') (\<lambda>cny_rate.
     cbnd (dmul price_cny cny_rate) (\<lambda>price_rub.
     cbnd (ddiv price_rub rate) (\<lambda>price_eur.
     cbnd (getitem settings ''duty_free_threshold'') (\<lambda>threshold.
     cbnd (quiet (dgt price_eur threshold)) (\<lambda>dutiable.
     cbnd (if dutiable then
             cbnd (dsub price_eur threshold) (\<lambda>duty_excess.
             cbnd (dmul duty_excess (Dec False 15 (- 2))) (\<lambda>x.
             cbnd (dmul x rate) (\<lambda>y.
             cbnd (dadd y (Dec False 500 0)) (\<lambda>base_duty.
             dmul base_duty (Dec False 105 (- 2))))))
           else Inr (Dec False 0 0, False)) (\<lambda>dt.
     cbnd (dadd price_rub dc) (\<lambda>t1.
     cbnd (getitem data ''delivery_ru'') (\<lambda>delivery_ru.
     cbnd (dadd t1 delivery_ru) (\<lambda>t2.
     cbnd (dadd t2 dt) (\<lambda>t3.
     cbnd (getitem settings ''photo_report'') (\<lambda>photo_report.
     cbnd (dadd t3 photo_report) (\<lambda>total.
     cbnd (dmul total (Dec False 12 (- 1))) (\<lambda>c20.
     cbnd (dmul total (Dec False 13 (- 1))) (\<lambda>c30.
     cbnd (getitem settings ''volume_coefficient'') (\<lambda>shown.
       Inr (\<lparr>eur_rate = rate, volume_weight = vw, volume_coefficient = vc,
              delivery_cost = dc, duty = dt, total_cost = total,
              cost_20_percent = c20, cost_30_percent = c30\<rparr>, False)
     )))))))))))))))))))))))))))))))"

subsection \<open>The handlers\<close>

text \<open>
  The body of a handler's \<^verbatim>\<open>try\<close> either raises or gives the new state with the messages
  sent.  \<^verbatim>\<open>except ValueError\<close> answers a \<^verbatim>\<open>ValueError\<close> with the validation message; any other
  exception leaves the handler.  In every handler an exception can only come before the
  first change of the state, so the state is then the one the handler started with.
\<close>

definition except_ValueError :: "bot \<Rightarrow> reply \<Rightarrow> exn + bot \<times> event list \<Rightarrow> bot \<times> event list" where
  "except_ValueError b msg r = (case r of
     Inr x \<Rightarrow> x
   | Inl e \<Rightarrow> if e = ValueError then (b, [Answer msg]) else (b, [Raised e]))"

text \<open>
  \<^verbatim>\<open>start_command\<close> loads the settings outside any \<^verbatim>\<open>try\<close>.
\<close>

definition start_command :: "nat \<Rightarrow> bot \<Rightarrow> bot \<times> event list" where
  "start_command uid b = (case load_settings uid b of
     Inl e \<Rightarrow> (b, [Raised e])
   | Inr user_settings \<Rightarrow>
       if truthy_settings user_settings then (b, [Answer Welcome_menu])
       else (set_state uid (Some setup_cny_rate) b,
             [Answer Welcome_setup, Answer (Ask setup_cny_rate)]))"

definition restart_command :: "nat \<Rightarrow> bot \<Rightarrow> bot \<times> event list" where
  "restart_command uid b = start_command uid (clear uid b)"

definition restart_button :: "nat \<Rightarrow> bot \<Rightarrow> bot \<times> event list" where
  "restart_button uid b = restart_command uid b"

definition settings_menu :: "nat \<Rightarrow> bot \<Rightarrow> bot \<times> event list" where
  "settings_menu uid b =
     (set_state uid (Some setup_cny_rate) b, [Answer Update_settings, Answer (Ask setup_cny_rate)])"

definition process_cny_rate :: "nat \<Rightarrow> str option \<Rightarrow> bot \<Rightarrow> bot \<times> event list" where
  "process_cny_rate uid text b = except_ValueError b Invalid_positive
     (bnd (parse_decimal text) (\<lambda>rate.
      bnd (dle rate (Decimal_int 0)) (\<lambda>bad.
        if bad then Inl ValueError
        else Inr (set_state uid (Some setup_weight_tariff) (update_data uid ''cny_rate'' rate b),
                  [Answer (Ask setup_weight_tariff)]))))"

definition process_weight_tariff :: "nat \<Rightarrow> str option \<Rightarrow> bot \<Rightarrow> bot \<times> event list" where
  "process_weight_tariff uid text b = except_ValueError b Invalid_positive
     (bnd (parse_decimal text) (\<lambda>tariff.
      bnd (dle tariff (Decimal_int 0)) (\<lambda>bad.
        if bad then Inl ValueError
        else Inr (set_state uid (Some setup_volume_coefficient) (update_data uid ''weight_tariff'' tariff b),
                  [Answer (Ask setup_volume_coefficient)]))))"

definition process_volume_coefficient :: "nat \<Rightarrow> str option \<Rightarrow> bot \<Rightarrow> bot \<times> event list" where
  "process_volume_coefficient uid text b = except_ValueError b Invalid_positive
     (bnd (parse_decimal text) (\<lambda>coefficient.
      bnd (dle coefficient (Decimal_int 0)) (\<lambda>bad.
        if bad then Inl ValueError
        else Inr (set_state uid (Some setup_photo_report) (update_data uid ''volume_coefficient'' coefficient b),
                  [Answer (Ask setup_photo_report)]))))"

definition process_photo_report :: "nat \<Rightarrow> str option \<Rightarrow> bot \<Rightarrow> bot \<times> event list" where
  "process_photo_report uid text b = except_ValueError b Invalid_nonnegative
     (bnd (parse_decimal text) (\<lambda>cost.
      bnd (dlt cost (Decimal_int 0)) (\<lambda>bad.
        if bad then Inl ValueError
        else Inr (set_state uid (Some setup_duty_free_threshold) (update_data uid ''photo_report'' cost b),
                  [Answer (Ask setup_duty_free_threshold)]))))"

text \<open>
  The last setup step builds the settings from the working data, saves them and clears the
  state.
\<close>

definition data_item :: "(string \<rightharpoonup> decimal) \<Rightarrow> string \<Rightarrow> exn + decimal" where
  "data_item m k = (case m k of None \<Rightarrow> Inl KeyError | Some v \<Rightarrow> Inr v)"

definition process_duty_free_threshold :: "nat \<Rightarrow> str option \<Rightarrow> bot \<Rightarrow> bot \<times> event list" where
  "process_duty_free_threshold uid text b = except_ValueError b Invalid_positive
     (bnd (parse_decimal text) (\<lambda>threshold.
      bnd (dle threshold (Decimal_int 0)) (\<lambda>bad.
        if bad then Inl ValueError
        else
          bnd (data_item (fsm_data b uid) ''cny_rate'') (\<lambda>cny_rate.
          bnd (data_item (fsm_data b uid) ''weight_tariff'') (\<lambda>weight_tariff.
          bnd (data_item (fsm_data b uid) ''volume_coefficient'') (\<lambda>volume_coefficient.
          bnd (data_item (fsm_data b uid) ''photo_report'') (\<lambda>photo_report.
            let settings = [(''cny_rate'', cny_rate), (''weight_tariff'', weight_tariff),
                            (''volume_coefficient'', volume_coefficient),
                            (''photo_report'', photo_report),
                            (''duty_free_threshold'', threshold)]
            in Inr (clear uid (save_settings uid settings b),
                    [Answer (Settings_info settings), Answer Settings_updated]))))))))"

definition start_calculation :: "nat \<Rightarrow> bot \<Rightarrow> bot \<times> event list" where
  "start_calculation uid b = (set_state uid (Some calc_length) b, [Answer (Ask calc_length)])"

definition process_length :: "nat \<Rightarrow> str option \<Rightarrow> bot \<Rightarrow> bot \<times> event list" where
  "process_length uid text b = except_ValueError b Invalid_positive
     (bnd (parse_decimal text) (\<lambda>length.
      bnd (dle length (Decimal_int 0)) (\<lambda>bad.
        if bad then Inl ValueError
        else Inr (set_state uid (Some calc_width) (update_data uid ''length'' length b),
                  [Answer (Ask calc_width)]))))"

definition process_width :: "nat \<Rightarrow> str option \<Rightarrow> bot \<Rightarrow> bot \<times> event list" where
  "process_width uid text b = except_ValueError b Invalid_positive
     (bnd (parse_decimal text) (\<lambda>width.
      bnd (dle width (Decimal_int 0)) (\<lambda>bad.
        if bad then Inl ValueError
        else Inr (set_state uid (Some calc_height) (update_data uid ''width'' width b),
                  [Answer (Ask calc_height)]))))"

definition process_height :: "nat \<Rightarrow> str option \<Rightarrow> bot \<Rightarrow> bot \<times> event list" where
  "process_height uid text b = except_ValueError b Invalid_positive
     (bnd (parse_decimal text) (\<lambda>height.
      bnd (dle height (Decimal_int 0)) (\<lambda>bad.
        if bad then Inl ValueError
        else Inr (set_state uid (Some calc_weight) (update_data uid ''height'' height b),
                  [Answer (Ask calc_weight)]))))"

definition process_weight :: "nat \<Rightarrow> str option \<Rightarrow> bot \<Rightarrow> bot \<times> event list" where
  "process_weight uid text b = except_ValueError b Invalid_positive
     (bnd (parse_decimal text) (\<lambda>weight.
      bnd (dle weight (Decimal_int 0)) (\<lambda>bad.
        if bad then Inl ValueError
        else Inr (set_state uid (Some calc_price_cny) (update_data uid ''weight'' weight b),
                  [Answer (Ask calc_price_cny)]))))"

definition process_price_cny :: "nat \<Rightarrow> str option \<Rightarrow> bot \<Rightarrow> bot \<times> event list" where
  "process_price_cny uid text b = except_ValueError b Invalid_positive
     (bnd (parse_decimal text) (\<lambda>price.
      bnd (dle price (Decimal_int 0)) (\<lambda>bad.
        if bad then Inl ValueError
        else Inr (set_state uid (Some calc_delivery_ru) (update_data uid ''price_cny'' price b),
                  [Answer (Ask calc_delivery_ru)]))))"

text \<open>
  \<^verbatim>\<open>process_calculation\<close>.  Everything is inside one \<^verbatim>\<open>try\<close> whose \<^verbatim>\<open>except Exception\<close> logs the
  exception, sends the failure message and clears the state.  Without settings it sends a
  message and returns; without a rate it asks for one and moves to \<open>manual_eur_rate\<close>.
\<close>

definition process_calculation :: "responses \<Rightarrow> nat \<Rightarrow> bot \<Rightarrow> bot \<times> event list" where
  "process_calculation rs uid b = (case load_settings uid b of
     Inl e \<Rightarrow> (clear uid b, [Log (Calculation_error e), Answer Calculation_failed])
   | Inr settings \<Rightarrow>
      (case settings of
         None \<Rightarrow> (b, [Answer Settings_not_found])
       | Some kvs \<Rightarrow>
          if kvs = [] then (b, [Answer Settings_not_found])
          else (case fetch_eur_rate rs b of (found, b1, tr) \<Rightarrow>
            (case found of
               None \<Rightarrow>
                 (set_state uid (Some manual_eur_rate) b1, tr @ [Answer Need_manual_rate])
             | Some rate \<Rightarrow>
                 if \<not> truthy rate then
                   (set_state uid (Some manual_eur_rate) b1, tr @ [Answer Need_manual_rate])
                 else (case calculation (fsm_data b1 uid) (map_of kvs) rate of
                    Inl e \<Rightarrow>
                      (clear uid b1, tr @ [Log (Calculation_error e), Answer Calculation_failed])
                  | Inr (r, inexact) \<Rightarrow> (clear uid b1, tr @ [Answer (Result r)]))))))"

definition process_delivery_ru :: "responses \<Rightarrow> nat \<Rightarrow> str option \<Rightarrow> bot \<Rightarrow> bot \<times> event list" where
  "process_delivery_ru rs uid text b = except_ValueError b Invalid_nonnegative
     (bnd (parse_decimal text) (\<lambda>delivery_ru.
      bnd (dlt delivery_ru (Decimal_int 0)) (\<lambda>bad.
        if bad then Inl ValueError
        else Inr (process_calculation rs uid (update_data uid ''delivery_ru'' delivery_ru b)))))"

definition process_manual_eur_rate :: "responses \<Rightarrow> nat \<Rightarrow> str option \<Rightarrow> bot \<Rightarrow> bot \<times> event list" where
  "process_manual_eur_rate rs uid text b = except_ValueError b Invalid_positive
     (bnd (parse_decimal text) (\<lambda>rate.
      bnd (dle rate (Decimal_int 0)) (\<lambda>bad.
        if bad then Inl ValueError
        else Inr (process_calculation rs uid (b\<lparr>last_eur_rate := Some rate\<rparr>)))))"

subsection \<open>The dispatcher\<close>

text \<open>
  The labels of the three buttons, as code points.
\<close>

definition BTN_CALCULATE :: str where
  "BTN_CALCULATE = [128202, 32, 1055, 1088, 1086, 1080, 1079, 1074, 1077, 1089, 1090, 1080, 32,
     1088, 1072, 1089, 1095, 1077, 1090]"

definition BTN_SETTINGS :: str where
  "BTN_SETTINGS = [9881, 65039, 32, 1048, 1079, 1084, 1077, 1085, 1080, 1090, 1100, 32, 1085,
     1072, 1089, 1090, 1088, 1086, 1081, 1082, 1080]"

definition BTN_RESTART :: str where
  "BTN_RESTART = [128260, 32, 1055, 1077, 1088, 1077, 1079, 1072, 1087, 1091, 1089, 1090, 1080,
     1090, 1100, 32, 1073, 1086, 1090]"

text \<open>
  The filter \<^verbatim>\<open>Command(name)\<close>: the first word of the text is \<^verbatim>\<open>/name\<close>, possibly followed by
  \<^verbatim>\<open>@\<close> and a mention (taken to be the bot's).
\<close>

definition is_command :: "string \<Rightarrow> str option \<Rightarrow> bool" where
  "is_command name text = (case text of
     None \<Rightarrow> False
   | Some t \<Rightarrow>
      (case takeWhile (\<lambda>c. \<not> isspace c) (dropWhile isspace t) of
         [] \<Rightarrow> False
       | c # r \<Rightarrow> c = of_char CHR ''/'' \<and> takeWhile (\<lambda>c. c \<noteq> of_char CHR ''@'') r = ascii name))"

text \<open>
  A message goes to the first handler, in the order of registration, whose filter accepts
  it: the commands and the restart and settings buttons first, then the setup states, then
  the calculation button, then the calculation states and the manual rate.  A message that
  no filter accepts changes nothing.
\<close>

definition handle_message :: "responses \<Rightarrow> nat \<Rightarrow> str option \<Rightarrow> bot \<Rightarrow> bot \<times> event list" where
  "handle_message rs uid text b =
    (if is_command ''start'' text then start_command uid b
     else if is_command ''restart'' text then restart_command uid b
     else if text = Some BTN_RESTART then restart_button uid b
     else if text = Some BTN_SETTINGS then settings_menu uid b
     else if fsm_state b uid = Some setup_cny_rate then process_cny_rate uid text b
     else if fsm_state b uid = Some setup_weight_tariff then process_weight_tariff uid text b
     else if fsm_state b uid = Some setup_volume_coefficient
       then process_volume_coefficient uid text b
     else if fsm_state b uid = Some setup_photo_report then process_photo_report uid text b
     else if fsm_state b uid = Some setup_duty_free_threshold
       then process_duty_free_threshold uid text b
     else if text = Some BTN_CALCULATE then start_calculation uid b
     else if fsm_state b uid = Some calc_length then process_length uid text b
     else if fsm_state b uid = Some calc_width then process_width uid text b
     else if fsm_state b uid = Some calc_height then process_height uid text b
     else if fsm_state b uid = Some calc_weight then process_weight uid text b
     else if fsm_state b uid = Some calc_price_cny then process_price_cny uid text b
     else if fsm_state b uid = Some calc_delivery_ru then process_delivery_ru rs uid text b
     else if fsm_state b uid = Some manual_eur_rate then process_manual_eur_rate rs uid text b
     else (b, []))"

text \<open>
  The process starts with no workflow state, no cached rate and the settings files the
  earlier runs left; every message, with the answers the sources give while it is handled,
  is a step.
\<close>

definition fresh :: "(nat \<rightharpoonup> (string \<times> str) list) \<Rightarrow> bot" where
  "fresh fs = \<lparr>fsm_state = (\<lambda>uid. None), fsm_data = (\<lambda>uid. Map.empty), files = fs,
               last_eur_rate = None\<rparr>"

inductive reachable :: "bot \<Rightarrow> bool" where
  start: "reachable (fresh fs)"
| message: "reachable b \<Longrightarrow> reachable (fst (handle_message rs uid text b))"

subsection \<open>Runs\<close>


definition no_response :: responses where
  "no_response = \<lparr>cbr_xml = None, cbr_json = None, google = None\<rparr>"

text \<open>A run handles a list of messages, each with the answers of the sources at that time.\<close>

fun run :: "(responses \<times> nat \<times> str option) list \<Rightarrow> bot \<Rightarrow> bot" where
  "run [] b = b"
| "run ((rs, uid, t) # ms) b = run ms (fst (handle_message rs uid t b))"

text \<open>
  The worked scenario of the specification: the working data, the settings, the settings file
  that holds them, and the messages by which user 7 enters all values but the last.
\<close>

definition scenario_data :: "string \<rightharpoonup> decimal" where
  "scenario_data = [''length'' \<mapsto> Dec False 50 0, ''width'' \<mapsto> Dec False 40 0,
     ''height'' \<mapsto> Dec False 30 0, ''weight'' \<mapsto> Dec False 5 0,
     ''price_cny'' \<mapsto> Dec False 1000 0, ''delivery_ru'' \<mapsto> Dec False 300 0]"

definition scenario_settings :: settings where
  "scenario_settings = [(''cny_rate'', Dec False 125 (- 1)), (''weight_tariff'', Dec False 400 0),
     (''volume_coefficient'', Dec False 60 0), (''photo_report'', Dec False 200 0),
     (''duty_free_threshold'', Dec False 200 0)]"

definition scenario_file :: "(string \<times> str) list" where
  "scenario_file = [(''cny_rate'', ascii ''12.5''), (''weight_tariff'', ascii ''400''),
     (''volume_coefficient'', ascii ''60''), (''photo_report'', ascii ''200''),
     (''duty_free_threshold'', ascii ''200'')]"

definition entering :: "(responses \<times> nat \<times> str option) list" where
  "entering = [(no_response, 7, Some BTN_CALCULATE), (no_response, 7, Some (ascii ''50'')),
     (no_response, 7, Some (ascii ''40'')), (no_response, 7, Some (ascii ''30'')),
     (no_response, 7, Some (ascii ''5'')), (no_response, 7, Some (ascii ''1000''))]"

text \<open>
  The bot after user 7, whose settings file holds the settings of the scenario, has entered all
  values but the last; the bot after the last value, 300, was sent while no source answered;
  and a call during which the XML feed answers with the given text.
\<close>

definition scenario_bot :: bot where
  "scenario_bot = run entering (fresh [7 \<mapsto> scenario_file])"

definition awaiting_rate :: bot where
  "awaiting_rate = fst (handle_message no_response 7 (Some (ascii ''300'')) scenario_bot)"

definition xml_answers :: "string \<Rightarrow> responses" where
  "xml_answers v = \<lparr>cbr_xml = Some (ascii v), cbr_json = None, google = None\<rparr>"

text \<open>
  What the calculation returns for the worked scenario at the rate 100, and at the rate 60.
\<close>

definition scenario_result :: result where
  "scenario_result = \<lparr>eur_rate = Dec False 100 0, volume_weight = Dec False 10020 (- 3),
     volume_coefficient = Dec False 301200 (- 3), delivery_cost = Dec False 2301200 (- 3),
     duty = Dec False 0 0, total_cost = Dec False 15301200 (- 3),
     cost_20_percent = Dec False 183614400 (- 4), cost_30_percent = Dec False 198915600 (- 4)\<rparr>"



section \<open>The formula chain of the specification\<close>

text \<open>
  The cost computation as the specification words it, over exact numbers: the inputs, the
  settings and the rate are rationals, and every step is the stated formula.
\<close>

record CalculationInput =
  lengthCm :: rat
  width :: rat
  height :: rat
  weight :: rat
  priceSourceCurrency :: rat
  domesticDeliveryFee :: rat
















section \<open>Properties\<close>

subsection \<open>Parsing\<close>

lemmas parse_simps =
  parse_decimal_def Decimal_def ascii_def replace_def numeric_as_ascii_def strip_def
  isspace_def split_sign_def lower_def number_of_ascii_def is_digit_def int_of_digits_def

lemma replace_replace: "replace a b (replace b a s) = replace a b s"
  by (simp add: replace_def)

text \<open>
  C8.  Writing a number with a comma where it has a point does not change what
  \<^verbatim>\<open>parse_decimal\<close> returns: for every text \<open>s\<close>, the text with each point replaced by a comma
  parses to the same result as \<open>s\<close> (the same decimal, or the same rejection).  In particular
  \<^verbatim>\<open>"12,5"\<close> and \<^verbatim>\<open>"12.5"\<close> both give the decimal 125E-1.
\<close>

theorem parse_decimal_separator:
  "parse_decimal (Some (replace (of_char CHR ''.'') (of_char CHR '','') s)) = parse_decimal (Some s)
   \<and> parse_decimal (Some (ascii ''12,5'')) = parse_decimal (Some (ascii ''12.5''))
   \<and> parse_decimal (Some (ascii ''12,5'')) = Inr (Dec False 125 (- 1))"
proof -
  have "replace (of_char CHR '','') (of_char CHR ''.'')
          (replace (of_char CHR ''.'') (of_char CHR '','') s)
      = replace (of_char CHR '','') (of_char CHR ''.'') s"
    by (rule replace_replace)
  then have 1: "parse_decimal (Some (replace (of_char CHR ''.'') (of_char CHR '','') s))
      = parse_decimal (Some s)"
    by (simp add: parse_decimal_def)
  have 2: "parse_decimal (Some (ascii ''12,5'')) = Inr (Dec False 125 (- 1))"
    by (simp add: parse_simps)
  have 3: "parse_decimal (Some (ascii ''12.5'')) = Inr (Dec False 125 (- 1))"
    by (simp add: parse_simps)
  from 1 2 3 show ?thesis by simp
qed

subsection \<open>The resolver of the rate\<close>








subsection \<open>Validation of the numeric inputs\<close>

lemma parse_NaN: "parse_decimal (Some (ascii ''NaN'')) = Inr (NaN False 0)"
  by (simp add: parse_simps)


text \<open>
  C5 (failing input).  The text \<^verbatim>\<open>NaN\<close> is read by \<^verbatim>\<open>parse_decimal\<close> as a decimal, and comparing
  it with zero raises \<^verbatim>\<open>InvalidOperation\<close>, which the \<^verbatim>\<open>except ValueError\<close> of the handlers does
  not catch: in each of the twelve states that expect a number, the handler sends no message
  at all and the exception leaves it.  The state and the working data stay as they were.
\<close>

theorem NaN_leaves_handler:
  "process_cny_rate uid (Some (ascii ''NaN'')) b = (b, [Raised InvalidOperation]) \<and>
   process_weight_tariff uid (Some (ascii ''NaN'')) b = (b, [Raised InvalidOperation]) \<and>
   process_volume_coefficient uid (Some (ascii ''NaN'')) b = (b, [Raised InvalidOperation]) \<and>
   process_photo_report uid (Some (ascii ''NaN'')) b = (b, [Raised InvalidOperation]) \<and>
   process_duty_free_threshold uid (Some (ascii ''NaN'')) b = (b, [Raised InvalidOperation]) \<and>
   process_length uid (Some (ascii ''NaN'')) b = (b, [Raised InvalidOperation]) \<and>
   process_width uid (Some (ascii ''NaN'')) b = (b, [Raised InvalidOperation]) \<and>
   process_height uid (Some (ascii ''NaN'')) b = (b, [Raised InvalidOperation]) \<and>
   process_weight uid (Some (ascii ''NaN'')) b = (b, [Raised InvalidOperation]) \<and>
   process_price_cny uid (Some (ascii ''NaN'')) b = (b, [Raised InvalidOperation]) \<and>
   process_delivery_ru rs uid (Some (ascii ''NaN'')) b = (b, [Raised InvalidOperation]) \<and>
   process_manual_eur_rate rs uid (Some (ascii ''NaN'')) b = (b, [Raised InvalidOperation])"
  by (simp add: process_cny_rate_def process_weight_tariff_def process_volume_coefficient_def
      process_photo_report_def process_duty_free_threshold_def process_length_def
      process_width_def process_height_def process_weight_def process_price_cny_def
      process_delivery_ru_def process_manual_eur_rate_def
      parse_NaN bnd_def dle_def dlt_def is_nan_def except_ValueError_def)


subsection \<open>Runs of the dispatcher\<close>

lemma reachable_run: "reachable b \<Longrightarrow> reachable (run ms b)"
proof (induction ms arbitrary: b)
  case Nil
  then show ?case by simp
next
  case (Cons m ms)
  obtain rs uid t where m: "m = (rs, uid, t)" by (cases m) auto
  have "reachable (fst (handle_message rs uid t b))"
    using Cons.prems by (rule reachable.message)
  then have "reachable (run ms (fst (handle_message rs uid t b)))"
    by (rule Cons.IH)
  then show ?case by (simp add: m)
qed

lemmas handler_defs = process_cny_rate_def process_weight_tariff_def process_volume_coefficient_def
      process_photo_report_def process_duty_free_threshold_def process_length_def
      process_width_def process_height_def process_weight_def process_price_cny_def
      process_delivery_ru_def process_manual_eur_rate_def start_calculation_def
      start_command_def restart_command_def restart_button_def settings_menu_def

lemmas state_defs = set_state_def update_data_def clear_def fresh_def

lemmas cmp_defs = dle_def dlt_def dgt_def is_nan_def cmp_def Decimal_int_def signed_def

lemma is_command_digits [simp]:
  "is_command n (Some (ascii ''50'')) = False" "is_command n (Some (ascii ''40'')) = False"
  "is_command n (Some (ascii ''30'')) = False" "is_command n (Some (ascii ''5'')) = False"
  "is_command n (Some (ascii ''1000'')) = False" "is_command n (Some (ascii ''300'')) = False"
  "is_command n (Some BTN_CALCULATE) = False"
  by (simp_all add: is_command_def ascii_def isspace_def BTN_CALCULATE_def)

lemma not_buttons [simp]:
  "ascii ''50'' \<noteq> BTN_RESTART" "ascii ''50'' \<noteq> BTN_SETTINGS" "ascii ''50'' \<noteq> BTN_CALCULATE"
  "ascii ''40'' \<noteq> BTN_RESTART" "ascii ''40'' \<noteq> BTN_SETTINGS" "ascii ''40'' \<noteq> BTN_CALCULATE"
  "ascii ''30'' \<noteq> BTN_RESTART" "ascii ''30'' \<noteq> BTN_SETTINGS" "ascii ''30'' \<noteq> BTN_CALCULATE"
  "ascii ''5'' \<noteq> BTN_RESTART" "ascii ''5'' \<noteq> BTN_SETTINGS" "ascii ''5'' \<noteq> BTN_CALCULATE"
  "ascii ''1000'' \<noteq> BTN_RESTART" "ascii ''1000'' \<noteq> BTN_SETTINGS" "ascii ''1000'' \<noteq> BTN_CALCULATE"
  "ascii ''300'' \<noteq> BTN_RESTART" "ascii ''300'' \<noteq> BTN_SETTINGS" "ascii ''300'' \<noteq> BTN_CALCULATE"
  "BTN_CALCULATE \<noteq> BTN_RESTART" "BTN_CALCULATE \<noteq> BTN_SETTINGS"
  by (simp_all add: ascii_def BTN_CALCULATE_def BTN_SETTINGS_def BTN_RESTART_def)

lemma parse_digits [simp]:
  "parse_decimal (Some (ascii ''50'')) = Inr (Dec False 50 0)"
  "parse_decimal (Some (ascii ''40'')) = Inr (Dec False 40 0)"
  "parse_decimal (Some (ascii ''30'')) = Inr (Dec False 30 0)"
  "parse_decimal (Some (ascii ''5'')) = Inr (Dec False 5 0)"
  "parse_decimal (Some (ascii ''1000'')) = Inr (Dec False 1000 0)"
  "parse_decimal (Some (ascii ''300'')) = Inr (Dec False 300 0)"
  by (simp_all add: parse_simps)

lemma step0: "fst (handle_message rs 7 (Some BTN_CALCULATE) (fresh fs)) = set_state 7 (Some calc_length) (fresh fs)"
  by (simp add: handle_message_def start_calculation_def fresh_def)

lemma entered_state: "fsm_state (run entering (fresh fs)) 7 = Some calc_delivery_ru"
  by (simp add: entering_def handle_message_def handler_defs state_defs bnd_def except_ValueError_def cmp_defs)

lemma entered_files: "files (run entering (fresh fs)) = fs"
  by (simp add: entering_def handle_message_def handler_defs state_defs bnd_def except_ValueError_def cmp_defs)

lemma entered_last: "last_eur_rate (run entering (fresh fs)) = None"
  by (simp add: entering_def handle_message_def handler_defs state_defs bnd_def except_ValueError_def cmp_defs)

lemma entered_data: "fsm_data (run entering (fresh fs)) 7 = [''length'' \<mapsto> Dec False 50 0, ''width'' \<mapsto> Dec False 40 0, ''height'' \<mapsto> Dec False 30 0, ''weight'' \<mapsto> Dec False 5 0, ''price_cny'' \<mapsto> Dec False 1000 0]"
  by (simp add: entering_def handle_message_def handler_defs state_defs bnd_def except_ValueError_def cmp_defs)


text \<open>
  C6 (failing input).  User 7, for whom no settings are stored, starts a calculation and enters
  50, 40, 30, 5 and 1000; the state is then reachable, with the delivery cost awaited.  On the
  last value, 300, \<^verbatim>\<open>process_calculation\<close> answers that the settings are not found and
  returns: the state of the user is still \<^verbatim>\<open>calc_delivery_ru\<close> and the collected data are still
  stored, whatever the sources answer.
\<close>

theorem missing_settings_keep_state:
  "reachable (run entering (fresh Map.empty))
   \<and> load_settings 7 (run entering (fresh Map.empty)) = Inr None
   \<and> snd (handle_message rs 7 (Some (ascii ''300'')) (run entering (fresh Map.empty))) = [Answer Settings_not_found]
   \<and> fsm_state (fst (handle_message rs 7 (Some (ascii ''300'')) (run entering (fresh Map.empty)))) 7 = Some calc_delivery_ru
   \<and> fsm_data (fst (handle_message rs 7 (Some (ascii ''300'')) (run entering (fresh Map.empty)))) 7 ''length'' = Some (Dec False 50 0)"
proof -
  have r: "reachable (run entering (fresh Map.empty))"
    by (rule reachable_run) (rule reachable.start)
  have l: "load_settings 7 (run entering (fresh Map.empty)) = Inr None"
    by (simp add: load_settings_def entered_files)
  have l': "load_settings 7 (update_data 7 ''delivery_ru'' (Dec False 300 0) (run entering (fresh Map.empty))) = Inr None"
    by (simp add: load_settings_def update_data_def entered_files)
  have h: "handle_message rs 7 (Some (ascii ''300'')) (run entering (fresh Map.empty))
      = (update_data 7 ''delivery_ru'' (Dec False 300 0) (run entering (fresh Map.empty)), [Answer Settings_not_found])"
    by (simp add: handle_message_def entered_state process_delivery_ru_def bnd_def except_ValueError_def cmp_defs process_calculation_def l')
  show ?thesis using r l by (simp add: h update_data_def entered_state entered_data)
qed

section \<open>The arithmetic of the calculation\<close>

subsection \<open>The number of digits\<close>

lemma ndigits_pos: "0 < ndigits n"
  by (induction n rule: ndigits.induct) (subst ndigits.simps, simp)

lemma ndigits_less: "n < 10 ^ ndigits n"
proof (induction n rule: ndigits.induct)
  case (1 n)
  show ?case
  proof (cases "n < 10")
    case True
    then show ?thesis by (subst ndigits.simps) simp
  next
    case False
    with 1 have "n div 10 < 10 ^ ndigits (n div 10)" by simp
    then have "n < 10 * 10 ^ ndigits (n div 10)" by (simp add: div_less_iff_less_mult mult.commute)
    with False show ?thesis by (subst ndigits.simps) simp
  qed
qed

lemma ndigits_ge: "n \<noteq> 0 \<Longrightarrow> 10 ^ (ndigits n - 1) \<le> n"
proof (induction n rule: ndigits.induct)
  case (1 n)
  show ?case
  proof (cases "n < 10")
    case True
    with 1(2) show ?thesis by (subst ndigits.simps) simp
  next
    case False
    then have nz: "n div 10 \<noteq> 0" by simp
    with 1 False have "10 ^ (ndigits (n div 10) - 1) \<le> n div 10" by simp
    then have "10 * 10 ^ (ndigits (n div 10) - 1) \<le> n" by (simp add: less_eq_div_iff_mult_less_eq mult.commute)
    moreover have "0 < ndigits (n div 10)" by (rule ndigits_pos)
    ultimately have "10 ^ ndigits (n div 10) \<le> n"
      by (cases "ndigits (n div 10)") simp_all
    with False show ?thesis by (subst ndigits.simps) simp
  qed
qed

lemma ndigits_le: "n < 10 ^ k \<Longrightarrow> 0 < k \<Longrightarrow> ndigits n \<le> k"
proof (cases "n = 0")
  case True
  assume "0 < k"
  moreover have "ndigits 0 = 1" by (subst ndigits.simps) simp
  ultimately show ?thesis using True by simp
next
  case False
  assume "n < 10 ^ k"
  with ndigits_ge [OF False] have "(10::nat) ^ (ndigits n - 1) < 10 ^ k" by linarith
  then have "ndigits n - 1 < k" by (simp only: power_strict_increasing_iff)
  then show ?thesis by linarith
qed

lemma ndigits_gt: "10 ^ k \<le> n \<Longrightarrow> k < ndigits n"
proof -
  assume "10 ^ k \<le> n"
  with ndigits_less [of n] have "(10::nat) ^ k < 10 ^ ndigits n" by linarith
  then show ?thesis by (simp only: power_strict_increasing_iff)
qed


subsection \<open>Rounding that is not inexact keeps the value\<close>

lemmas ctx_defs = prec_def Etop_def Etiny_def Emax_def Emin_def








subsection \<open>Operations that are not inexact are the operations on the values\<close>




lemma dmul_Dec: "dmul (Dec s1 c1 e1) (Dec s2 c2 e2) = dfix (s1 \<noteq> s2) (c1 * c2) (e1 + e2)"
  by (simp add: dmul_def check_nans_def is_snan_def is_nan_def)

lemma dadd_Dec: "dadd (Dec s1 c1 e1) (Dec s2 c2 e2) =
   (let m = min e1 e2;
        x = signed s1 c1 * 10 ^ nat (e1 - m) + signed s2 c2 * 10 ^ nat (e2 - m)
    in if x = 0 then dfix (c1 = 0 \<and> c2 = 0 \<and> s1 \<and> s2) 0 m
       else dfix (x < 0) (nat \<bar>x\<bar>) m)"
  by (simp add: dadd_def check_nans_def is_snan_def is_nan_def)

lemma dsub_Dec: "dsub (Dec s1 c1 e1) (Dec s2 c2 e2) = dadd (Dec s1 c1 e1) (Dec (\<not> s2) c2 e2)"
  by (simp add: dsub_def check_nans_def is_snan_def is_nan_def copy_negate_def)







lemma ddiv_Dec: "c1 \<noteq> 0 \<Longrightarrow> c2 \<noteq> 0 \<Longrightarrow> ddiv (Dec s1 c1 e1) (Dec s2 c2 e2) =
            (let shift = int (ndigits c2) - int (ndigits c1) + prec + 1;
                 e = e1 - e2 - shift;
                 n = (if shift \<ge> 0 then c1 * 10 ^ nat shift else c1);
                 d = (if shift \<ge> 0 then c2 else c2 * 10 ^ nat (- shift));
                 coeff = n div d;
                 remainder = n mod d
             in if remainder \<noteq> 0 then
                  dfix (s1 \<noteq> s2) (if coeff mod 5 = 0 then coeff + 1 else coeff) e
                else (case strip_zeros coeff e (e1 - e2) of (coeff', e') \<Rightarrow>
                  dfix (s1 \<noteq> s2) coeff' e'))"
  by (simp add: ddiv_def check_nans_def is_snan_def is_nan_def)










subsection \<open>An exact run of the calculation\<close>








lemma finite_consts [simp]: "is_finite (Dec s c e)" "is_finite (Decimal_int i)"
  by (simp_all add: is_finite_def Decimal_int_def)


subsection \<open>Evaluating single operations\<close>

lemma ndigits_eq: "10 ^ n \<le> c \<Longrightarrow> c < 10 ^ Suc n \<Longrightarrow> ndigits c = Suc n"
  using ndigits_gt [of n c] ndigits_le [of c "Suc n"] by simp

lemma dfix_fits:
  assumes "c < 10 ^ 28" "- 1000026 \<le> e" "e \<le> 999972"
  shows "dfix s c e = Inr (Dec s c e, False)"
proof (cases "c = 0")
  case True
  with assms show ?thesis by (simp add: dfix_def ctx_defs)
next
  case False
  from assms(1) have "ndigits c \<le> 28" by (rule ndigits_le) simp
  with assms(2,3) have "\<not> int (ndigits c) + e - prec > Etop"
    and "\<not> e < max (int (ndigits c) + e - prec) Etiny"
    by (simp_all add: ctx_defs)
  with False show ?thesis by (simp add: dfix_def)
qed

lemma dfix_rounds:
  assumes c: "c = q * 10 ^ k + r" and r: "r < 10 ^ k" and k: "0 < k"
    and lo: "10 ^ (27 + k) \<le> c" and hi: "c < 10 ^ (28 + k)"
    and q': "(if 2 * r > 10 ^ k \<or> (2 * r = 10 ^ k \<and> odd q) then q + 1 else q) < 10 ^ 28"
    and e: "- 1000026 \<le> e + int k" "e + int k \<le> 999972"
  shows "dfix s c e =
    Inr (Dec s (if 2 * r > 10 ^ k \<or> (2 * r = 10 ^ k \<and> odd q) then q + 1 else q) (e + int k), r \<noteq> 0)"
proof -
  have n: "ndigits c = 28 + k"
    using ndigits_eq [of "27 + k" c] lo hi by simp
  from lo have c0: "c \<noteq> 0" by (cases "c = 0") simp_all
  have d: "c div 10 ^ k = q" and m: "c mod 10 ^ k = r"
    using c r by simp_all
  have rhe: "round_half_even c k =
      (if 2 * r > 10 ^ k \<or> (2 * r = 10 ^ k \<and> odd q) then q + 1 else q)"
    unfolding round_half_even_def Let_def d m ..
  have nd: "ndigits (round_half_even c k) \<le> 28"
    unfolding rhe using q' by (rule ndigits_le) simp
  have rt: "round_to s c e (e + int k) = Inr (Dec s (round_half_even c k) (e + int k), r \<noteq> 0)"
    unfolding round_to_def Let_def using nd m by (simp add: ctx_defs)
  have mx: "max (int (ndigits c) + e - prec) Etiny = e + int k"
    using n e by (simp add: ctx_defs)
  have "\<not> int (ndigits c) + e - prec > Etop" "e < e + int k"
    using n e k by (simp_all add: ctx_defs)
  then have "dfix s c e = round_to s c e (e + int k)"
    unfolding dfix_def mx using c0 by simp
  with rt rhe show ?thesis by simp
qed

lemma strip_zeros_eval:
  "e + int k \<le> ideal \<Longrightarrow> q mod 10 \<noteq> 0 \<or> e + int k = ideal \<Longrightarrow>
   strip_zeros (q * 10 ^ k) e ideal = (q, e + int k)"
proof (induction k arbitrary: e)
  case 0
  then show ?case by (subst strip_zeros.simps) auto
next
  case (Suc k)
  from Suc.prems have "strip_zeros (q * 10 ^ k) (e + 1) ideal = (q, e + 1 + int k)"
    by (intro Suc.IH) auto
  moreover from Suc.prems have "e < ideal" by simp
  ultimately show ?case by (subst strip_zeros.simps) simp
qed

lemma ddiv_eval_exact:
  assumes "10 ^ na \<le> ca" "ca < 10 ^ Suc na" "10 ^ nb \<le> cb" "cb < 10 ^ Suc nb"
    and "na \<le> nb + 29" and "ca * 10 ^ (nb + 29 - na) = q * 10 ^ k * cb"
    and "k + na \<le> nb + 29" and "q mod 10 \<noteq> 0 \<or> k + na = nb + 29"
  shows "ddiv (Dec sa ca ea) (Dec sb cb eb) =
         dfix (sa \<noteq> sb) q (ea - eb - (int nb + 29 - int na) + int k)"
proof -
  from assms(1,3) have c0: "ca \<noteq> 0" "cb \<noteq> 0" by (auto intro: ccontr)
  have n: "ndigits ca = Suc na" "ndigits cb = Suc nb"
    using assms(1-4) by (simp_all add: ndigits_eq)
  define S where "S = nb + 29 - na"
  have iS: "int S = int nb + 29 - int na"
    using assms(5) by (simp add: S_def)
  have shift: "int (ndigits cb) - int (ndigits ca) + prec + 1 = int S"
    by (simp add: iS n prec_def)
  have d: "ca * 10 ^ S div cb = q * 10 ^ k" and m: "ca * 10 ^ S mod cb = 0"
    using assms(6) c0 by (simp_all add: S_def)
  have sz: "strip_zeros (q * 10 ^ k) (ea - eb - int S) (ea - eb) = (q, ea - eb - int S + int k)"
    using assms(5,7,8) by (intro strip_zeros_eval) (auto simp: S_def)
  have "ddiv (Dec sa ca ea) (Dec sb cb eb) = dfix (sa \<noteq> sb) q (ea - eb - int S + int k)"
    unfolding ddiv_Dec [OF c0] shift Let_def by (simp add: d m sz)
  then show ?thesis unfolding iS .
qed

lemma ddiv_eval_inexact:
  assumes "10 ^ na \<le> ca" "ca < 10 ^ Suc na" "10 ^ nb \<le> cb" "cb < 10 ^ Suc nb"
    and "na \<le> nb + 29" and "ca * 10 ^ (nb + 29 - na) = q * cb + r" and "0 < r" and "r < cb"
  shows "ddiv (Dec sa ca ea) (Dec sb cb eb) =
         dfix (sa \<noteq> sb) (if q mod 5 = 0 then q + 1 else q) (ea - eb - (int nb + 29 - int na))"
proof -
  from assms(1,3) have c0: "ca \<noteq> 0" "cb \<noteq> 0" by (auto intro: ccontr)
  have n: "ndigits ca = Suc na" "ndigits cb = Suc nb"
    using assms(1-4) by (simp_all add: ndigits_eq)
  define S where "S = nb + 29 - na"
  have iS: "int S = int nb + 29 - int na"
    using assms(5) by (simp add: S_def)
  have shift: "int (ndigits cb) - int (ndigits ca) + prec + 1 = int S"
    by (simp add: iS n prec_def)
  have d: "ca * 10 ^ S div cb = q" and m: "ca * 10 ^ S mod cb = r"
    using assms(6,8) by (simp_all add: S_def)
  have "ddiv (Dec sa ca ea) (Dec sb cb eb) =
        dfix (sa \<noteq> sb) (if q mod 5 = 0 then q + 1 else q) (ea - eb - int S)"
    unfolding ddiv_Dec [OF c0] shift Let_def using assms(7) by (simp add: d m)
  then show ?thesis unfolding iS .
qed

lemma dgt_Dec: "dgt (Dec sa ca ea) (Dec sb cb eb) =
    Inr (let m = min ea eb in signed sa ca * 10 ^ nat (ea - m) > signed sb cb * 10 ^ nat (eb - m))"
  by (auto simp: dgt_def is_nan_def cmp_def Let_def)


subsection \<open>The worked scenario, step by step\<close>

lemma step_1: "ddiv (Dec False 50 0) (Dec False 100 0) = Inr (Dec False 5 (- 1), False)"
  using ddiv_eval_exact [where ca = 50 and na = 1 and cb = 100 and nb = 2 and q = 5 and k = 29 and sa = False and ea = 0 and sb = False and eb = 0]
  by (simp add: dfix_fits)

lemma step_2: "ddiv (Dec False 40 0) (Dec False 100 0) = Inr (Dec False 4 (- 1), False)"
  using ddiv_eval_exact [where ca = 40 and na = 1 and cb = 100 and nb = 2 and q = 4 and k = 29 and sa = False and ea = 0 and sb = False and eb = 0]
  by (simp add: dfix_fits)

lemma step_3: "dmul (Dec False 5 (- 1)) (Dec False 4 (- 1)) = Inr (Dec False 20 (- 2), False)"
  by (simp add: dmul_Dec dfix_fits)

lemma step_4: "ddiv (Dec False 30 0) (Dec False 100 0) = Inr (Dec False 3 (- 1), False)"
  using ddiv_eval_exact [where ca = 30 and na = 1 and cb = 100 and nb = 2 and q = 3 and k = 29 and sa = False and ea = 0 and sb = False and eb = 0]
  by (simp add: dfix_fits)

lemma step_5: "dmul (Dec False 20 (- 2)) (Dec False 3 (- 1)) = Inr (Dec False 60 (- 3), False)"
  by (simp add: dmul_Dec dfix_fits)

lemma step_6: "dmul (Dec False 60 (- 3)) (Dec False 167 0) = Inr (Dec False 10020 (- 3), False)"
  by (simp add: dmul_Dec dfix_fits)

lemma step_7: "dgt (Dec False 10020 (- 3)) (Dec False 5 0) = Inr True"
  by (simp add: dgt_Dec signed_def Let_def)

lemma step_8: "dsub (Dec False 10020 (- 3)) (Dec False 5 0) = Inr (Dec False 5020 (- 3), False)"
  by (simp add: dsub_Dec dadd_Dec signed_def Let_def dfix_fits)

lemma step_9: "dmul (Dec False 5020 (- 3)) (Dec False 60 0) = Inr (Dec False 301200 (- 3), False)"
  by (simp add: dmul_Dec dfix_fits)

lemma step_10: "dmul (Dec False 5 0) (Dec False 400 0) = Inr (Dec False 2000 0, False)"
  by (simp add: dmul_Dec dfix_fits)

lemma step_11: "dadd (Dec False 2000 0) (Dec False 301200 (- 3)) = Inr (Dec False 2301200 (- 3), False)"
  by (simp add: dsub_Dec dadd_Dec signed_def Let_def dfix_fits)

lemma step_12: "dmul (Dec False 1000 0) (Dec False 125 (- 1)) = Inr (Dec False 125000 (- 1), False)"
  by (simp add: dmul_Dec dfix_fits)

lemma step_13: "ddiv (Dec False 125000 (- 1)) (Dec False 100 0) = Inr (Dec False 1250 (- 1), False)"
  using ddiv_eval_exact [where ca = 125000 and na = 5 and cb = 100 and nb = 2 and q = 1250 and k = 26 and sa = False and ea = "- 1" and sb = False and eb = 0]
  by (simp add: dfix_fits)

lemma step_14: "dgt (Dec False 1250 (- 1)) (Dec False 200 0) = Inr False"
  by (simp add: dgt_Dec signed_def Let_def)

lemma step_15: "dadd (Dec False 125000 (- 1)) (Dec False 2301200 (- 3)) = Inr (Dec False 14801200 (- 3), False)"
  by (simp add: dsub_Dec dadd_Dec signed_def Let_def dfix_fits)

lemma step_16: "dadd (Dec False 14801200 (- 3)) (Dec False 300 0) = Inr (Dec False 15101200 (- 3), False)"
  by (simp add: dsub_Dec dadd_Dec signed_def Let_def dfix_fits)

lemma step_17: "dadd (Dec False 15101200 (- 3)) (Dec False 0 0) = Inr (Dec False 15101200 (- 3), False)"
  by (simp add: dsub_Dec dadd_Dec signed_def Let_def dfix_fits)

lemma step_18: "dadd (Dec False 15101200 (- 3)) (Dec False 200 0) = Inr (Dec False 15301200 (- 3), False)"
  by (simp add: dsub_Dec dadd_Dec signed_def Let_def dfix_fits)

lemma step_19: "dmul (Dec False 15301200 (- 3)) (Dec False 12 (- 1)) = Inr (Dec False 183614400 (- 4), False)"
  by (simp add: dmul_Dec dfix_fits)

lemma step_20: "dmul (Dec False 15301200 (- 3)) (Dec False 13 (- 1)) = Inr (Dec False 198915600 (- 4), False)"
  by (simp add: dmul_Dec dfix_fits)

lemma step_21: "ddiv (Dec False 125000 (- 1)) (Dec False 60 0) = Inr (Dec False 2083333333333333333333333333 (- 25), True)"
  using ddiv_eval_inexact [where ca = 125000 and na = 5 and cb = 60 and nb = 1 and q = 20833333333333333333333333333 and r = 20 and sa = False and ea = "- 1" and sb = False and eb = 0]
    dfix_rounds [where c = 20833333333333333333333333333 and q = 2083333333333333333333333333 and k = 1 and r = 3 and e = "- 26" and s = False]
  by (simp add: dfix_fits)

lemma step_22: "dgt (Dec False 2083333333333333333333333333 (- 25)) (Dec False 200 0) = Inr True"
  by (simp add: dgt_Dec signed_def Let_def)

lemma step_23: "dsub (Dec False 2083333333333333333333333333 (- 25)) (Dec False 200 0) = Inr (Dec False 83333333333333333333333333 (- 25), False)"
  by (simp add: dsub_Dec dadd_Dec signed_def Let_def dfix_fits)

lemma step_24: "dmul (Dec False 83333333333333333333333333 (- 25)) (Dec False 15 (- 2)) = Inr (Dec False 1249999999999999999999999995 (- 27), False)"
  by (simp add: dmul_Dec dfix_fits)

lemma step_25: "dmul (Dec False 1249999999999999999999999995 (- 27)) (Dec False 60 0) = Inr (Dec False 7499999999999999999999999970 (- 26), False)"
  using dfix_rounds [where c = 74999999999999999999999999700 and q = 7499999999999999999999999970 and k = 1 and r = 0 and e = "- 27" and s = False]
  by (simp add: dmul_Dec)

lemma step_26: "dadd (Dec False 7499999999999999999999999970 (- 26)) (Dec False 500 0) = Inr (Dec False 5749999999999999999999999997 (- 25), False)"
  using dfix_rounds [where c = 57499999999999999999999999970 and q = 5749999999999999999999999997 and k = 1 and r = 0 and e = "- 26" and s = False]
  by (simp add: dsub_Dec dadd_Dec signed_def Let_def)

lemma step_27: "dmul (Dec False 5749999999999999999999999997 (- 25)) (Dec False 105 (- 2)) = Inr (Dec False 6037499999999999999999999997 (- 25), True)"
  using dfix_rounds [where c = 603749999999999999999999999685 and q = 6037499999999999999999999996 and k = 2 and r = 85 and e = "- 27" and s = False]
  by (simp add: dmul_Dec)

lemma step_28: "dadd (Dec False 15101200 (- 3)) (Dec False 6037499999999999999999999997 (- 25)) = Inr (Dec False 1570495000000000000000000000 (- 23), True)"
  using dfix_rounds [where c = 157049499999999999999999999997 and q = 1570494999999999999999999999 and k = 2 and r = 97 and e = "- 25" and s = False]
  by (simp add: dsub_Dec dadd_Dec signed_def Let_def)

lemma step_29: "dadd (Dec False 1570495000000000000000000000 (- 23)) (Dec False 200 0) = Inr (Dec False 1590495000000000000000000000 (- 23), False)"
  by (simp add: dsub_Dec dadd_Dec signed_def Let_def dfix_fits)

lemma step_30: "dmul (Dec False 1590495000000000000000000000 (- 23)) (Dec False 12 (- 1)) = Inr (Dec False 1908594000000000000000000000 (- 23), False)"
  using dfix_rounds [where c = 19085940000000000000000000000 and q = 1908594000000000000000000000 and k = 1 and r = 0 and e = "- 24" and s = False]
  by (simp add: dmul_Dec)

lemma step_31: "dmul (Dec False 1590495000000000000000000000 (- 23)) (Dec False 13 (- 1)) = Inr (Dec False 2067643500000000000000000000 (- 23), False)"
  using dfix_rounds [where c = 20676435000000000000000000000 and q = 2067643500000000000000000000 and k = 1 and r = 0 and e = "- 24" and s = False]
  by (simp add: dmul_Dec)

lemmas steps = step_1 step_2 step_3 step_4 step_5 step_6 step_7 step_8 step_9 step_10 step_11 step_12 step_13 step_14 step_15 step_16 step_17 step_18 step_19 step_20 step_21 step_22 step_23 step_24 step_25 step_26 step_27 step_28 step_29 step_30 step_31


lemmas calc_unfold = calculation_def cbnd_def getitem_def quiet_def

lemma scenario_calculation:
  "calculation scenario_data (map_of scenario_settings) (Dec False 100 0) = Inr (scenario_result, False)"
  by (simp add: scenario_data_def scenario_settings_def scenario_result_def calc_unfold Decimal_int_def steps)













section \<open>The rate that reaches the calculation\<close>

subsection \<open>No operation but the division by the rate can divide by zero\<close>

lemma round_to_not_dbz: "round_to s c e m \<noteq> Inl DivisionByZero"
  by (simp add: round_to_def Let_def)

lemma dfix_not_dbz: "dfix s c e \<noteq> Inl DivisionByZero"
  by (simp add: dfix_def round_to_not_dbz)

lemma check_nans_not_dbz: "check_nans a b = Some r \<Longrightarrow> r \<noteq> Inl DivisionByZero"
  by (auto simp: check_nans_def split: if_splits)

lemma dmul_not_dbz: "dmul a b \<noteq> Inl DivisionByZero"
  by (auto simp: dmul_def dfix_not_dbz dest: check_nans_not_dbz split: option.splits decimal.splits)

lemma dadd_not_dbz: "dadd a b \<noteq> Inl DivisionByZero"
  by (auto simp: dadd_def Let_def dfix_not_dbz dest: check_nans_not_dbz split: option.splits decimal.splits)

lemma dsub_not_dbz: "dsub a b \<noteq> Inl DivisionByZero"
  by (auto simp: dsub_def dadd_not_dbz dest: check_nans_not_dbz split: option.splits)

lemma ddiv_dbz: "ddiv a b = Inl DivisionByZero \<Longrightarrow> \<not> truthy b"
  by (auto simp: ddiv_def Let_def truthy_def dfix_not_dbz dest: check_nans_not_dbz
      split: option.splits decimal.splits if_splits prod.splits)

lemma ddiv_not_dbz: "truthy b \<Longrightarrow> ddiv a b \<noteq> Inl DivisionByZero"
  using ddiv_dbz by blast

lemma cbnd_not: "m \<noteq> Inl e \<Longrightarrow> (\<And>x. f x \<noteq> Inl e) \<Longrightarrow> cbnd m f \<noteq> Inl e"
  by (auto simp: cbnd_def split: sum.splits prod.splits)

lemma getitem_not_dbz: "getitem m k \<noteq> Inl DivisionByZero"
  by (simp add: getitem_def split: option.splits)

lemma quiet_dgt_not_dbz: "quiet (dgt a b) \<noteq> Inl DivisionByZero"
  by (simp add: quiet_def dgt_def)

lemma calculation_not_dbz:
  assumes "truthy rate"
  shows "calculation d s rate \<noteq> Inl DivisionByZero"
  unfolding calculation_def
  by (intro cbnd_not getitem_not_dbz quiet_dgt_not_dbz dmul_not_dbz dadd_not_dbz dsub_not_dbz
        ddiv_not_dbz assms; simp add: truthy_def Decimal_int_def cbnd_not getitem_not_dbz dmul_not_dbz dadd_not_dbz dsub_not_dbz)

lemma cbnd_InrE:
  assumes "cbnd m f = Inr (y, i)"
  obtains x j k where "m = Inr (x, j)" "f x = Inr (y, k)"
  using assms by (auto simp: cbnd_def split: sum.splits prod.splits)

lemma calculation_rate:
  assumes "calculation d s rate = Inr (r, i)"
  shows "eur_rate r = rate"
  using assms unfolding calculation_def
  by (elim cbnd_InrE) auto

lemma Decimal_error: "Decimal v = Inl e \<Longrightarrow> e = InvalidOperation"
  by (auto simp: Decimal_def number_of_ascii_def Let_def split: prod.splits if_splits list.splits)

lemma load_items_error: "load_items kvs = Inl e \<Longrightarrow> e = InvalidOperation"
  by (induction kvs) (auto simp: bnd_def split: sum.splits dest: Decimal_error)

lemma load_settings_error: "load_settings uid b = Inl e \<Longrightarrow> e = InvalidOperation"
  by (auto simp: load_settings_def bnd_def split: option.splits sum.splits dest: load_items_error)

lemma fetch_events:
  "fetch_eur_rate rs b = (x, b1, tr) \<Longrightarrow> Answer a \<notin> set tr \<and> Log (Calculation_error e) \<notin> set tr"
  by (auto simp: fetch_eur_rate_def split: option.splits if_splits)

lemma fetch_files: "fetch_eur_rate rs b = (x, b1, tr) \<Longrightarrow> files b1 = files b"
  by (auto simp: fetch_eur_rate_def split: option.splits if_splits)

text \<open>What process_calculation can do.\<close>

lemma process_calculation_cases:
  assumes "process_calculation rs uid b = (b', evs)"
  shows "Log (Calculation_error DivisionByZero) \<notin> set evs"
    and "Answer (Result r) \<in> set evs \<Longrightarrow>
          truthy (eur_rate r) \<and> (\<exists>kvs. load_settings uid b = Inr (Some kvs) \<and> kvs \<noteq> [])
          \<and> files b' = files b"
proof -
  show "Log (Calculation_error DivisionByZero) \<notin> set evs"
    using assms
    by (auto simp: process_calculation_def split: sum.splits option.splits if_splits prod.splits
        dest: fetch_events calculation_not_dbz load_settings_error)
  show "Answer (Result r) \<in> set evs \<Longrightarrow>
          truthy (eur_rate r) \<and> (\<exists>kvs. load_settings uid b = Inr (Some kvs) \<and> kvs \<noteq> [])
          \<and> files b' = files b"
    using assms
    by (auto simp: process_calculation_def clear_def split: sum.splits option.splits if_splits prod.splits
        dest: fetch_events calculation_rate fetch_files)
qed

lemma simple_handlers_events:
  assumes "e = Answer (Result r) \<or> e = Log (Calculation_error x)"
  shows "e \<notin> set (snd (start_command uid b))"
    "e \<notin> set (snd (restart_command uid b))"
    "e \<notin> set (snd (restart_button uid b))"
    "e \<notin> set (snd (settings_menu uid b))"
    "e \<notin> set (snd (process_cny_rate uid t b))"
    "e \<notin> set (snd (process_weight_tariff uid t b))"
    "e \<notin> set (snd (process_volume_coefficient uid t b))"
    "e \<notin> set (snd (process_photo_report uid t b))"
    "e \<notin> set (snd (process_duty_free_threshold uid t b))"
    "e \<notin> set (snd (start_calculation uid b))"
    "e \<notin> set (snd (process_length uid t b))"
    "e \<notin> set (snd (process_width uid t b))"
    "e \<notin> set (snd (process_height uid t b))"
    "e \<notin> set (snd (process_weight uid t b))"
    "e \<notin> set (snd (process_price_cny uid t b))"
  using assms
  by (auto simp: handler_defs except_ValueError_def bnd_def Let_def
      split: sum.splits if_splits)

lemma load_settings_cong: "files b2 = files b \<Longrightarrow> load_settings uid b2 = load_settings uid b"
  by (simp add: load_settings_def)

lemma calculating_handlers_dbz:
  "Log (Calculation_error DivisionByZero) \<notin> set (snd (process_delivery_ru rs uid t b))"
  "Log (Calculation_error DivisionByZero) \<notin> set (snd (process_manual_eur_rate rs uid t b))"
  using process_calculation_cases(1) [of rs uid "update_data uid ''delivery_ru'' d b" for d]
    process_calculation_cases(1) [of rs uid "b\<lparr>last_eur_rate := Some d\<rparr>" for d]
  by (auto simp: process_delivery_ru_def process_manual_eur_rate_def except_ValueError_def bnd_def
      split: sum.splits if_splits intro: prod.exhaust)

subsection \<open>What a message can produce\<close>

lemma process_delivery_ru_result:
  assumes "Answer (Result r) \<in> set (snd (process_delivery_ru rs uid t b))"
  shows "truthy (eur_rate r) \<and> (\<exists>kvs. load_settings uid b = Inr (Some kvs) \<and> kvs \<noteq> [])"
proof -
  from assms have "\<exists>d. Answer (Result r)
      \<in> set (snd (process_calculation rs uid (update_data uid ''delivery_ru'' d b)))"
    by (auto simp: process_delivery_ru_def except_ValueError_def bnd_def
        split: sum.splits if_splits intro: exI [of _ "projr (parse_decimal t)"])
  then obtain d where
    "Answer (Result r) \<in> set (snd (process_calculation rs uid (update_data uid ''delivery_ru'' d b)))"
    by blast
  then have "truthy (eur_rate r) \<and>
      (\<exists>kvs. load_settings uid (update_data uid ''delivery_ru'' d b) = Inr (Some kvs) \<and> kvs \<noteq> [])"
    using process_calculation_cases(2) [OF surjective_pairing] by blast
  moreover have "load_settings uid (update_data uid ''delivery_ru'' d b) = load_settings uid b"
    by (rule load_settings_cong) (simp add: update_data_def)
  ultimately show ?thesis by simp
qed

lemma process_manual_eur_rate_result:
  assumes "Answer (Result r) \<in> set (snd (process_manual_eur_rate rs uid t b))"
  shows "truthy (eur_rate r) \<and> (\<exists>kvs. load_settings uid b = Inr (Some kvs) \<and> kvs \<noteq> [])"
proof -
  from assms have "\<exists>d. Answer (Result r)
      \<in> set (snd (process_calculation rs uid (b\<lparr>last_eur_rate := Some d\<rparr>)))"
    by (auto simp: process_manual_eur_rate_def except_ValueError_def bnd_def
        split: sum.splits if_splits intro: exI [of _ "projr (parse_decimal t)"])
  then obtain d where
    "Answer (Result r) \<in> set (snd (process_calculation rs uid (b\<lparr>last_eur_rate := Some d\<rparr>)))"
    by blast
  then have "truthy (eur_rate r) \<and>
      (\<exists>kvs. load_settings uid (b\<lparr>last_eur_rate := Some d\<rparr>) = Inr (Some kvs) \<and> kvs \<noteq> [])"
    using process_calculation_cases(2) [OF surjective_pairing] by blast
  moreover have "load_settings uid (b\<lparr>last_eur_rate := Some d\<rparr>) = load_settings uid b"
    by (rule load_settings_cong) simp
  ultimately show ?thesis by simp
qed

lemma handle_message_result:
  assumes "Answer (Result r) \<in> set (snd (handle_message rs uid t b))"
  shows "truthy (eur_rate r) \<and> (\<exists>kvs. load_settings uid b = Inr (Some kvs) \<and> kvs \<noteq> [])"
proof -
  note simple = simple_handlers_events [of "Answer (Result r)" r, simplified]
  from assms have "Answer (Result r) \<in> set (snd (process_delivery_ru rs uid t b))
      \<or> Answer (Result r) \<in> set (snd (process_manual_eur_rate rs uid t b))"
    unfolding handle_message_def
    by (simp add: simple split: if_split_asm)
  then show ?thesis
    using process_delivery_ru_result process_manual_eur_rate_result by blast
qed

lemma handle_message_no_dbz:
  "Log (Calculation_error DivisionByZero) \<notin> set (snd (handle_message rs uid t b))"
proof -
  note simple = simple_handlers_events
    [of "Log (Calculation_error DivisionByZero)" undefined DivisionByZero, simplified]
  show ?thesis
    unfolding handle_message_def
    by (simp add: simple calculating_handlers_dbz)
qed

lemma positive_truthy: "dle r (Decimal_int 0) = Inr False \<Longrightarrow> truthy r"
  by (cases r) (auto simp: dle_def cmp_def truthy_def Decimal_int_def signed_def Let_def
      split: if_splits)

lemma process_calculation_manual:
  assumes "load_settings uid b = Inr (Some kvs)" "kvs \<noteq> []"
    and "fst (fetch_eur_rate rs b) = None
         \<or> (\<exists>z. fst (fetch_eur_rate rs b) = Some z \<and> \<not> truthy z)"
  shows "process_calculation rs uid b =
    (set_state uid (Some manual_eur_rate) (fst (snd (fetch_eur_rate rs b))),
     snd (snd (fetch_eur_rate rs b)) @ [Answer Need_manual_rate])"
  using assms by (auto simp: process_calculation_def split: prod.splits option.splits)

lemma process_manual_eur_rate_rejects:
  assumes "parse_decimal t = Inr x" "dle x (Decimal_int 0) = Inr True"
  shows "process_manual_eur_rate rs uid t b = (b, [Answer Invalid_positive])"
  using assms by (simp add: process_manual_eur_rate_def bnd_def except_ValueError_def)

subsection \<open>The last steps of the worked scenario\<close>

lemma scenario_bot_simps:
  "fsm_state scenario_bot 7 = Some calc_delivery_ru"
  "files scenario_bot = [7 \<mapsto> scenario_file]"
  "last_eur_rate scenario_bot = None"
  "fsm_data scenario_bot 7 = [''length'' \<mapsto> Dec False 50 0, ''width'' \<mapsto> Dec False 40 0,
     ''height'' \<mapsto> Dec False 30 0, ''weight'' \<mapsto> Dec False 5 0,
     ''price_cny'' \<mapsto> Dec False 1000 0]"
  by (simp_all add: scenario_bot_def entered_state entered_files entered_last entered_data)


lemma load_scenario_file:
  "files b 7 = Some scenario_file \<Longrightarrow> load_settings 7 b = Inr (Some scenario_settings)"
  by (simp add: load_settings_def scenario_file_def scenario_settings_def bnd_def Decimal_def
      ascii_def numeric_as_ascii_def strip_def isspace_def split_sign_def lower_def
      number_of_ascii_def is_digit_def int_of_digits_def)

lemma scenario_settings_nonempty: "scenario_settings \<noteq> []"
  by (simp add: scenario_settings_def)

lemma fetch_no_response:
  "fetch_eur_rate no_response b =
    (case last_eur_rate b of
       Some r \<Rightarrow> if truthy r
         then (Some r, b, [Get CBR_XML, Get CBR_JSON, Get Google_Finance, Log (Cached r)])
         else (None, b, [Get CBR_XML, Get CBR_JSON, Get Google_Finance, Log No_rate])
     | None \<Rightarrow> (None, b, [Get CBR_XML, Get CBR_JSON, Get Google_Finance, Log No_rate]))"
  by (simp add: fetch_eur_rate_def no_response_def rate_of_def)

lemma fetch_xml_answers:
  "fetch_eur_rate (xml_answers ''100'') b =
     (Some (Dec False 100 0), b\<lparr>last_eur_rate := Some (Dec False 100 0)\<rparr>,
      [Get CBR_XML, Log (Got CBR_XML (Dec False 100 0))])"
  "fetch_eur_rate (xml_answers ''60'') b =
     (Some (Dec False 60 0), b\<lparr>last_eur_rate := Some (Dec False 60 0)\<rparr>,
      [Get CBR_XML, Log (Got CBR_XML (Dec False 60 0))])"
  by (simp_all add: fetch_eur_rate_def xml_answers_def rate_of_def replace_def Decimal_def
      ascii_def numeric_as_ascii_def strip_def isspace_def split_sign_def lower_def
      number_of_ascii_def is_digit_def int_of_digits_def)

lemma delivery_ru_entered:
  "handle_message rs 7 (Some (ascii ''300'')) scenario_bot =
     process_calculation rs 7 (update_data 7 ''delivery_ru'' (Dec False 300 0) scenario_bot)"
  by (simp add: handle_message_def scenario_bot_simps process_delivery_ru_def bnd_def
      except_ValueError_def cmp_defs)

lemma final_data:
  "fsm_data (update_data 7 ''delivery_ru'' (Dec False 300 0) scenario_bot) 7 = scenario_data"
  by (simp add: update_data_def scenario_bot_simps scenario_data_def)




lemma parse_100: "parse_decimal (Some (ascii ''100'')) = Inr (Dec False 100 0)"
  by (simp add: parse_simps)

lemma parse_0: "parse_decimal (Some (ascii ''0'')) = Inr (Dec False 0 0)"
  by (simp add: parse_simps)

lemma is_command_100 [simp]:
  "is_command n (Some (ascii ''100'')) = False" "is_command n (Some (ascii ''0'')) = False"
  by (simp_all add: is_command_def ascii_def isspace_def)

lemma not_buttons_100 [simp]:
  "ascii ''100'' \<noteq> BTN_RESTART" "ascii ''100'' \<noteq> BTN_SETTINGS" "ascii ''100'' \<noteq> BTN_CALCULATE"
  "ascii ''0'' \<noteq> BTN_RESTART" "ascii ''0'' \<noteq> BTN_SETTINGS" "ascii ''0'' \<noteq> BTN_CALCULATE"
  by (simp_all add: ascii_def BTN_CALCULATE_def BTN_SETTINGS_def BTN_RESTART_def)


lemma scenario_run:
  "handle_message (xml_answers ''100'') 7 (Some (ascii ''300'')) scenario_bot =
    (clear 7 ((update_data 7 ''delivery_ru'' (Dec False 300 0) scenario_bot)
        \<lparr>last_eur_rate := Some (Dec False 100 0)\<rparr>),
     [Get CBR_XML, Log (Got CBR_XML (Dec False 100 0)), Answer (Result scenario_result)])"
  by (simp add: delivery_ru_entered process_calculation_def load_scenario_file update_data_def
      scenario_bot_simps scenario_settings_nonempty fetch_xml_answers truthy_def
      scenario_calculation [unfolded scenario_data_def] )


lemma dle_examples:
  "dle (Dec False 100 0) (Decimal_int 0) = Inr False"
  "dle (Dec False 0 0) (Decimal_int 0) = Inr True"
  by (simp_all add: cmp_defs)





subsection \<open>The rate is never zero\<close>

text \<open>
  C10.  The division by the rate never divides by zero.  The calculation raises
  \<^verbatim>\<open>DivisionByZero\<close> for no rate that is not zero; no message, in any state of the bot and
  whatever the sources answer, makes the bot log a calculation that failed with
  \<^verbatim>\<open>DivisionByZero\<close>; and every result the bot sends was computed with a rate that is not zero.
  This is so because \<^verbatim>\<open>process_calculation\<close>, when the resolver returns \<^verbatim>\<open>None\<close> or a zero, asks
  for the rate by hand and computes nothing, and because \<^verbatim>\<open>process_manual_eur_rate\<close> rejects a
  value that is zero or negative, so that a value it accepts is not zero.
\<close>

theorem no_division_by_zero:
  "(truthy rate \<longrightarrow> calculation d s rate \<noteq> Inl DivisionByZero)
   \<and> Log (Calculation_error DivisionByZero) \<notin> set (snd (handle_message rs uid t b))
   \<and> (Answer (Result r) \<in> set (snd (handle_message rs uid t b)) \<longrightarrow> truthy (eur_rate r))
   \<and> (load_settings uid b = Inr (Some kvs) \<and> kvs \<noteq> []
        \<and> (fst (fetch_eur_rate rs b) = None
            \<or> (\<exists>z. fst (fetch_eur_rate rs b) = Some z \<and> \<not> truthy z))
      \<longrightarrow> process_calculation rs uid b =
           (set_state uid (Some manual_eur_rate) (fst (snd (fetch_eur_rate rs b))),
            snd (snd (fetch_eur_rate rs b)) @ [Answer Need_manual_rate]))
   \<and> (parse_decimal t = Inr x \<and> dle x (Decimal_int 0) = Inr True
      \<longrightarrow> process_manual_eur_rate rs uid t b = (b, [Answer Invalid_positive]))
   \<and> (parse_decimal t = Inr x \<and> dle x (Decimal_int 0) = Inr False \<longrightarrow> truthy x)"
  using calculation_not_dbz [of rate d s] handle_message_no_dbz [of rs uid t b]
    handle_message_result [of r rs uid t b] process_calculation_manual [of uid b kvs rs]
    process_manual_eur_rate_rejects [of t x rs uid b] positive_truthy [of x]
  by blast

theorem no_division_by_zero_witness:
  "truthy (Dec False 100 0)
   \<and> calculation scenario_data (map_of scenario_settings) (Dec False 100 0) \<noteq> Inl DivisionByZero
   \<and> Answer (Result scenario_result)
       \<in> set (snd (handle_message (xml_answers ''100'') 7 (Some (ascii ''300'')) scenario_bot))
   \<and> truthy (eur_rate scenario_result)
   \<and> load_settings 7 (update_data 7 ''delivery_ru'' (Dec False 300 0) scenario_bot)
       = Inr (Some scenario_settings)
   \<and> scenario_settings \<noteq> []
   \<and> fst (fetch_eur_rate no_response (update_data 7 ''delivery_ru'' (Dec False 300 0) scenario_bot))
       = None
   \<and> process_calculation no_response 7 (update_data 7 ''delivery_ru'' (Dec False 300 0) scenario_bot)
       = (set_state 7 (Some manual_eur_rate)
            (update_data 7 ''delivery_ru'' (Dec False 300 0) scenario_bot),
          [Get CBR_XML, Get CBR_JSON, Get Google_Finance, Log No_rate, Answer Need_manual_rate])
   \<and> parse_decimal (Some (ascii ''0'')) = Inr (Dec False 0 0)
   \<and> dle (Dec False 0 0) (Decimal_int 0) = Inr True
   \<and> process_manual_eur_rate no_response 7 (Some (ascii ''0'')) awaiting_rate
       = (awaiting_rate, [Answer Invalid_positive])
   \<and> parse_decimal (Some (ascii ''100'')) = Inr (Dec False 100 0)
   \<and> dle (Dec False 100 0) (Decimal_int 0) = Inr False"
proof -
  let ?b = "update_data 7 ''delivery_ru'' (Dec False 300 0) scenario_bot"
  have t: "truthy (Dec False 100 0)" by (simp add: truthy_def)
  have m: "Answer (Result scenario_result)
       \<in> set (snd (handle_message (xml_answers ''100'') 7 (Some (ascii ''300'')) scenario_bot))"
    by (simp add: scenario_run)
  have l: "load_settings 7 ?b = Inr (Some scenario_settings)"
    by (rule load_scenario_file) (simp add: update_data_def scenario_bot_simps)
  have f: "fetch_eur_rate no_response ?b =
      (None, ?b, [Get CBR_XML, Get CBR_JSON, Get Google_Finance, Log No_rate])"
    by (simp add: fetch_no_response update_data_def scenario_bot_simps)
  note a = no_division_by_zero [of "Dec False 100 0" scenario_data "map_of scenario_settings"
      "xml_answers ''100''" 7 "Some (ascii ''300'')" scenario_bot scenario_result]
  note b = no_division_by_zero [of _ _ _ no_response 7 "Some (ascii ''0'')" ?b _
      scenario_settings]
  note c = no_division_by_zero [of _ _ _ no_response 7 "Some (ascii ''0'')" awaiting_rate _ _
      "Dec False 0 0"]
  from a t m have 1: "calculation scenario_data (map_of scenario_settings) (Dec False 100 0)
      \<noteq> Inl DivisionByZero" "truthy (eur_rate scenario_result)"
    by blast+
  from b l scenario_settings_nonempty f
  have 2: "process_calculation no_response 7 ?b =
      (set_state 7 (Some manual_eur_rate) ?b,
       [Get CBR_XML, Get CBR_JSON, Get Google_Finance, Log No_rate, Answer Need_manual_rate])"
    by simp
  from c parse_0 dle_examples(2)
  have 3: "process_manual_eur_rate no_response 7 (Some (ascii ''0'')) awaiting_rate
       = (awaiting_rate, [Answer Invalid_positive])"
    by blast
  from t m 1 l scenario_settings_nonempty f 2 3 parse_0 parse_100 dle_examples
  show ?thesis by simp
qed


subsection \<open>Settings and the steps of a calculation\<close>

text \<open>
  C4, amended.  In every state of the bot, hence in every reachable one, and for every user: a
  message makes the bot send the result of a calculation to a user only if a settings record
  that is not empty is stored for that user.  (The settings are looked up at the last step
  only: the steps before it run without them.)
\<close>

theorem result_needs_settings:
  "Answer (Result r) \<in> set (snd (handle_message rs uid t b))
   \<longrightarrow> (\<exists>kvs. load_settings uid b = Inr (Some kvs) \<and> kvs \<noteq> [])"
  using handle_message_result [of r rs uid t b] by blast

theorem result_needs_settings_witness:
  "Answer (Result scenario_result)
       \<in> set (snd (handle_message (xml_answers ''100'') 7 (Some (ascii ''300'')) scenario_bot))
   \<and> (\<exists>kvs. load_settings 7 scenario_bot = Inr (Some kvs) \<and> kvs \<noteq> [])"
proof -
  have "Answer (Result scenario_result)
       \<in> set (snd (handle_message (xml_answers ''100'') 7 (Some (ascii ''300'')) scenario_bot))"
    by (simp add: scenario_run)
  with result_needs_settings [of scenario_result "xml_answers ''100''" 7 "Some (ascii ''300'')"
      scenario_bot]
  show ?thesis by blast
qed


text \<open>
  C4 as stated fails: user 7, for whom nothing is stored, presses the button of the
  calculation in the fresh bot; the state reached is the calculation step \<^verbatim>\<open>calc_length\<close>, and
  no settings exist for the user.
\<close>

theorem calculation_without_settings_counterexample:
  "reachable (fst (handle_message no_response 7 (Some BTN_CALCULATE) (fresh Map.empty)))
   \<and> fsm_state (fst (handle_message no_response 7 (Some BTN_CALCULATE) (fresh Map.empty))) 7
       = Some calc_length
   \<and> load_settings 7 (fst (handle_message no_response 7 (Some BTN_CALCULATE) (fresh Map.empty)))
       = Inr None"
proof -
  have "reachable (fst (handle_message no_response 7 (Some BTN_CALCULATE) (fresh Map.empty)))"
    by (rule reachable.message) (rule reachable.start)
  moreover have "fsm_state (set_state 7 (Some calc_length) (fresh Map.empty)) 7 = Some calc_length"
    and "load_settings 7 (set_state 7 (Some calc_length) (fresh Map.empty)) = Inr None"
    by (simp_all add: set_state_def load_settings_def fresh_def)
  ultimately show ?thesis
    by (simp only: step0 simp_thms)
qed


subsection \<open>The rate entered by hand\<close>





end
